theory Spec2Isabelle
  imports Main
begin

text \<open>
  A model of msigner, the PSBT signer for ordinal trades on Bitcoin-like chains: the fee
  estimate, the address classification, the inscription check and the UTXO selection,
  the seller's listing PSBT and its verification, the buyer's PSBT with the two dummy
  inputs, and the merge of the two signed halves. Asynchronous functions are modelled by
  their results in sequence; names follow the source. Where a name of the source is
  taken in Isabelle/HOL it carries a prefix: \<open>value\<close> is \<open>utxo_value\<close> on a UTXO and
  \<open>out_value\<close> on an output, \<open>id\<close> and \<open>output\<close> of an item are \<open>item_id\<close> and
  \<open>item_output\<close>, the fields of a listing request start with \<open>req_\<close>, and
  \<open>seller.tapInternalKey\<close> is \<open>seller_tapInternalKey\<close>.
\<close>

section \<open>Errors\<close>

text \<open>
  Every \<open>throw\<close> of the TypeScript source and every rejected promise is a value of
  this type. \<open>InvalidArgumentError\<close> is the class declared in signer.ts; the other
  three stand for the errors the source does not raise itself but lets through: a
  JavaScript \<open>TypeError\<close> (a property read on \<open>undefined\<close>), an \<open>Error\<close> thrown inside
  bitcoinjs-lib, and a rejected provider call. The message of an
  \<open>InvalidArgumentError\<close> is its fixed first line; the amounts the source prints after it
  are left out.
\<close>

datatype error =
    InvalidArgumentError string
  | TypeError
  | LibraryError
  | ProviderError

definition orThrow :: "'a option \<Rightarrow> error \<Rightarrow> error + 'a" where
  "orThrow r e = (case r of None \<Rightarrow> Inl e | Some x \<Rightarrow> Inr x)"

section \<open>Fee calculation (vendors/feeprovider.ts)\<close>

text \<open>
  JavaScript numbers are modelled as \<open>int\<close>: amounts are whole satoshis far below
  \<open>2^53\<close>, where the arithmetic of the source is exact. The default value \<open>1\<close> of the
  optional parameter \<open>includeChangeOutput\<close> is written out at each call.
\<close>

definition calculateTxBytesFeeWithRate :: "int \<Rightarrow> int \<Rightarrow> int \<Rightarrow> int \<Rightarrow> int" where
  "calculateTxBytesFeeWithRate vinsLength voutsLength feeRate includeChangeOutput =
     (let baseTxSize = 10;
          inSize = 180;
          outSize = 34;
          txSize = baseTxSize + vinsLength * inSize + voutsLength * outSize
                   + includeChangeOutput * outSize
      in txSize * feeRate)"

definition getSellerOrdOutputValue :: "int \<Rightarrow> int \<Rightarrow> int \<Rightarrow> int" where
  "getSellerOrdOutputValue price makerFeeBp prevUtxoValue =
     price - (price * makerFeeBp) div 10000 + prevUtxoValue"

section \<open>JavaScript values used by the source\<close>

text \<open>
  A \<open>Buffer\<close> is modelled by its lower-case hexadecimal text, two characters per byte,
  so that \<open>toString('hex')\<close> is the identity. \<open>undefined\<close> and \<open>null\<close> are \<open>None\<close>.
\<close>

type_synonym Buffer = string

definition nth_opt :: "'a list \<Rightarrow> nat \<Rightarrow> 'a option" where
  "nth_opt xs i = (if i < length xs then Some (xs ! i) else None)"

text \<open>\<open>s.split(':')\<close>: the pieces between the colons; never empty.\<close>

fun split_on :: "char \<Rightarrow> string \<Rightarrow> string list" where
  "split_on c [] = [[]]"
| "split_on c (x # xs) =
     (if x = c then [] # split_on c xs
      else (x # hd (split_on c xs)) # tl (split_on c xs))"

text \<open>A non-negative number inside a template literal or string concatenation.\<close>

fun string_of_nat :: "nat \<Rightarrow> string" where
  "string_of_nat n =
     (if n < 10 then [char_of (48 + n)]
      else string_of_nat (n div 10) @ [char_of (48 + n mod 10)])"

definition isHexDigit :: "char \<Rightarrow> bool" where
  "isHexDigit ch = (ch \<in> set ''0123456789abcdefABCDEF'')"

definition hexLower :: "char \<Rightarrow> char" where
  "hexLower ch = (if ch \<in> set ''ABCDEF'' then char_of (of_char ch + (32::nat)) else ch)"

text \<open>\<open>Buffer.from(s, 'hex')\<close>: whole bytes up to the first character that is no hex digit.\<close>

fun Buffer_from_hex :: "string \<Rightarrow> Buffer" where
  "Buffer_from_hex (a # b # rest) =
     (if isHexDigit a \<and> isHexDigit b then hexLower a # hexLower b # Buffer_from_hex rest
      else [])"
| "Buffer_from_hex _ = []"

fun bytePairs :: "Buffer \<Rightarrow> string list" where
  "bytePairs (a # b # rest) = [a, b] # bytePairs rest"
| "bytePairs _ = []"

definition byteLength :: "Buffer \<Rightarrow> nat" where
  "byteLength b = length (bytePairs b)"

definition reverseBuffer :: "Buffer \<Rightarrow> Buffer" where
  "reverseBuffer b = concat (rev (bytePairs b))"

section \<open>Constants (constant.ts)\<close>

definition BUYING_PSBT_SELLER_SIGNATURE_INDEX :: nat where
  "BUYING_PSBT_SELLER_SIGNATURE_INDEX = 2"

definition BUYING_PSBT_BUYER_RECEIVE_INDEX :: nat where
  "BUYING_PSBT_BUYER_RECEIVE_INDEX = 1"

definition BUYING_PSBT_PLATFORM_FEE_INDEX :: nat where
  "BUYING_PSBT_PLATFORM_FEE_INDEX = 3"

text \<open>
  The runtime values are read from the environment when the module is loaded, with the
  defaults below; the functions of the signer take them as the record \<open>constants\<close>.
\<close>

record constants =
  DUMMY_UTXO_VALUE :: int
  DUMMY_UTXO_MAX_VALUE :: int
  DUMMY_UTXO_MIN_VALUE :: int
  ORDINALS_POSTAGE_VALUE :: int
  PLATFORM_FEE_ADDRESS :: string

definition DEFAULT_DUMMY_UTXO_VALUE :: int where "DEFAULT_DUMMY_UTXO_VALUE = 600"
definition DEFAULT_DUMMY_UTXO_MAX_VALUE :: int where "DEFAULT_DUMMY_UTXO_MAX_VALUE = 1000"
definition DEFAULT_DUMMY_UTXO_MIN_VALUE :: int where "DEFAULT_DUMMY_UTXO_MIN_VALUE = 580"
definition DEFAULT_ORDINALS_POSTAGE_VALUE :: int where "DEFAULT_ORDINALS_POSTAGE_VALUE = 10000"

definition default_constants :: constants where
  "default_constants =
     \<lparr> DUMMY_UTXO_VALUE = DEFAULT_DUMMY_UTXO_VALUE,
       DUMMY_UTXO_MAX_VALUE = DEFAULT_DUMMY_UTXO_MAX_VALUE,
       DUMMY_UTXO_MIN_VALUE = DEFAULT_DUMMY_UTXO_MIN_VALUE,
       ORDINALS_POSTAGE_VALUE = DEFAULT_ORDINALS_POSTAGE_VALUE,
       PLATFORM_FEE_ADDRESS = [] \<rparr>"

section \<open>Networks (networks.ts)\<close>

record Network =
  pubKeyHash :: nat
  scriptHash :: nat
  bech32 :: string

record ChainNetwork =
  name :: string
  chain_network :: Network
  supportsSegwit :: bool
  supportsTaproot :: bool
  dustLimit :: "int option"

definition junkcoinMainnet :: ChainNetwork where
  "junkcoinMainnet =
     \<lparr> name = ''junkcoin'',
       chain_network = \<lparr> pubKeyHash = 16, scriptHash = 5, bech32 = ''jc'' \<rparr>,
       supportsSegwit = False, supportsTaproot = False, dustLimit = Some 546 \<rparr>"

definition litecoinMainnet :: ChainNetwork where
  "litecoinMainnet =
     \<lparr> name = ''litecoin'',
       chain_network = \<lparr> pubKeyHash = 0x30, scriptHash = 0x32, bech32 = ''ltc'' \<rparr>,
       supportsSegwit = True, supportsTaproot = False, dustLimit = None \<rparr>"

definition dogecoinMainnet :: ChainNetwork where
  "dogecoinMainnet =
     \<lparr> name = ''dogecoin'',
       chain_network = \<lparr> pubKeyHash = 0x1e, scriptHash = 0x16, bech32 = [] \<rparr>,
       supportsSegwit = False, supportsTaproot = False, dustLimit = None \<rparr>"

section \<open>Transactions and PSBTs (the parts of bitcoinjs-lib the signer reads and writes)\<close>

record TransactionOutput =
  script :: Buffer
  out_value :: int

record TransactionInput =
  hash :: Buffer
  index :: nat
  witness :: "Buffer list"

record Transaction =
  ins :: "TransactionInput list"
  outs :: "TransactionOutput list"

text \<open>The per-input map of a PSBT; \<open>tx.toBuffer()\<close> is kept as the transaction itself.\<close>

record PsbtInput =
  nonWitnessUtxo :: "Transaction option"
  witnessUtxo :: "TransactionOutput option"
  redeemScript :: "Buffer option"
  sighashType :: "nat option"
  tapInternalKey :: "Buffer option"
  finalScriptWitness :: "Buffer option"

text \<open>
  A PSBT: the inputs and outputs of its unsigned transaction
  (\<open>data.globalMap.unsignedTx.tx\<close>), the per-input maps (\<open>data.inputs\<close>) and the
  remaining fields. In the fields of a listing and in the request of the verification
  the base64 text of a PSBT is identified with the PSBT it encodes: \<open>toBase64\<close> and
  \<open>fromBase64\<close> are inverse to each other on the PSBTs bitcoinjs-lib writes. The merge
  of the two signed PSBTs works on the text itself, through a parser that may fail.
\<close>

record Psbt =
  tx_version :: nat
  tx_locktime :: nat
  tx_ins :: "TransactionInput list"
  tx_outs :: "TransactionOutput list"
  data_inputs :: "PsbtInput list"
  data_outputs :: "Buffer list"

definition new_Psbt :: Psbt where
  "new_Psbt = \<lparr> tx_version = 2, tx_locktime = 0, tx_ins = [], tx_outs = [],
                data_inputs = [], data_outputs = [] \<rparr>"


section \<open>What the signer takes from outside\<close>

text \<open>
  The JavaScript built-ins and the functions of bitcoinjs-lib that the source calls are
  parameters of the model, collected in the record \<open>runtime\<close>. A result \<open>None\<close> is a
  thrown error, except for \<open>Number\<close> and \<open>parseInt\<close>, where it is \<open>NaN\<close> (or a value that
  is no whole number); their argument \<open>None\<close> is \<open>undefined\<close>.
  \<open>inputAccepted\<close> is the validation \<open>psbt.addInput\<close> performs before it appends.
\<close>

record Bech32Result =
  version :: nat
  prefix_b32 :: string
  data :: Buffer

record runtime =
  Number :: "string option \<Rightarrow> int option"
  parseInt :: "string option \<Rightarrow> int option"
  fromBase58Check :: "string \<Rightarrow> (nat \<times> Buffer) option"
  fromBech32 :: "string \<Rightarrow> Bech32Result option"
  toOutputScript :: "string \<Rightarrow> Network \<Rightarrow> Buffer option"
  fromOutputScript :: "Buffer \<Rightarrow> Network \<Rightarrow> string option"
  Transaction_fromHex :: "string \<Rightarrow> Transaction option"
  p2sh_p2wpkh :: "Buffer \<Rightarrow> (Buffer \<times> Buffer) option"
  inputAccepted :: "Psbt \<Rightarrow> Buffer \<Rightarrow> nat \<Rightarrow> PsbtInput \<Rightarrow> bool"

text \<open>
  The providers (providers.ts). A result \<open>None\<close> is a rejected promise; an inner \<open>None\<close>
  is the value \<open>null\<close>. Each provider is a function of its argument: the responses are
  stable during one call of the signer. Where the source falls back to the default RPC
  instance (\<open>rpcProvider ?? getDefaultRPC()\<close>), that instance is the one in the record.
\<close>

record IOrdItem =
  item_id :: string
  owner :: string
  location :: string
  outputValue :: int
  item_output :: string

record VerboseVin =
  vin_txid :: string
  vin_vout :: nat

record IGetRawTransactionVerboseResult =
  confirmations :: int
  vin :: "VerboseVin list"

record AnalyzeInput =
  has_utxo :: bool
  is_final :: bool

record IAnalyzePSBTResult =
  inputs :: "AnalyzeInput list"

record providers =
  getrawtransaction :: "string \<Rightarrow> string option"
  getrawtransactionVerbose :: "string \<Rightarrow> IGetRawTransactionVerboseResult option"
  analyzepsbt :: "Psbt \<Rightarrow> IAnalyzePSBTResult option option"
  getFees :: "string \<Rightarrow> int option"
  getTokenByOutput :: "string \<Rightarrow> IOrdItem option option"
  marketplaceFeeProvider :: "(string \<Rightarrow> int option) option"

definition calculateTxBytesFee ::
  "providers \<Rightarrow> int \<Rightarrow> int \<Rightarrow> string \<Rightarrow> int \<Rightarrow> error + int" where
  "calculateTxBytesFee feeProvider vinsLength voutsLength feeRateTier includeChangeOutput =
     (case getFees feeProvider feeRateTier of
        None \<Rightarrow> Inl ProviderError
      | Some feeRate \<Rightarrow>
          Inr (calculateTxBytesFeeWithRate vinsLength voutsLength feeRate includeChangeOutput))"

section \<open>Utilities (util.ts)\<close>

record TxStatus =
  confirmed :: bool

record AddressTxsUtxo =
  txid :: string
  vout :: nat
  utxo_value :: int
  status :: TxStatus

record MappedUtxo = AddressTxsUtxo +
  tx :: Transaction

definition toXOnly :: "Buffer \<Rightarrow> Buffer" where
  "toXOnly pubKey = (if byteLength pubKey = 32 then pubKey else take 64 (drop 2 pubKey))"

definition generateTxidFromHash :: "Buffer \<Rightarrow> string" where
  "generateTxidFromHash h = reverseBuffer h"

fun mapUtxos :: "runtime \<Rightarrow> providers \<Rightarrow> AddressTxsUtxo list \<Rightarrow> error + MappedUtxo list" where
  "mapUtxos R rpc [] = Inr []"
| "mapUtxos R rpc (utxoFromMempool # rest) =
     (case getrawtransaction rpc (txid utxoFromMempool) of
        None \<Rightarrow> Inl ProviderError
      | Some txHex \<Rightarrow>
          (case Transaction_fromHex R txHex of
             None \<Rightarrow> Inl LibraryError
           | Some t \<Rightarrow>
               (case mapUtxos R rpc rest of
                  Inl e \<Rightarrow> Inl e
                | Inr ret \<Rightarrow>
                    Inr (\<lparr> txid = txid utxoFromMempool, vout = vout utxoFromMempool,
                           utxo_value = utxo_value utxoFromMempool,
                           status = status utxoFromMempool, tx = t \<rparr> # ret))))"

definition isP2SHAddress :: "runtime \<Rightarrow> string \<Rightarrow> Network \<Rightarrow> bool" where
  "isP2SHAddress R address net =
     (case fromBase58Check R address of
        None \<Rightarrow> False
      | Some (ver, h) \<Rightarrow> ver = scriptHash net \<and> byteLength h = 20)"

definition isP2PKHAddress :: "runtime \<Rightarrow> string \<Rightarrow> Network \<Rightarrow> bool" where
  "isP2PKHAddress R address net =
     (case fromBase58Check R address of
        None \<Rightarrow> False
      | Some (ver, h) \<Rightarrow> ver = pubKeyHash net \<and> byteLength h = 20)"

text \<open>\<open>s.toLowerCase()\<close> on the ASCII letters, which is all an address prefix holds.\<close>

definition toLowerCase :: "string \<Rightarrow> string" where
  "toLowerCase s =
     map (\<lambda>ch. if (65::nat) \<le> of_char ch \<and> of_char ch \<le> (90::nat)
               then char_of (of_char ch + (32::nat)) else ch) s"

definition startsWith :: "string \<Rightarrow> string \<Rightarrow> bool" where
  "startsWith s p = (take (length p) s = p)"

definition isSegWitAddress :: "runtime \<Rightarrow> string \<Rightarrow> Network \<Rightarrow> bool" where
  "isSegWitAddress R address net =
     (if bech32 net = [] then False
      else (case fromBech32 R address of
              None \<Rightarrow> False
            | Some decoded \<Rightarrow> startsWith (toLowerCase address) (toLowerCase (bech32 net))))"

definition isTaprootAddress :: "runtime \<Rightarrow> string \<Rightarrow> Network \<Rightarrow> bool" where
  "isTaprootAddress R address net =
     (if bech32 net = [] then False
      else (case fromBech32 R address of
              None \<Rightarrow> False
            | Some decoded \<Rightarrow>
                version decoded = 1
                \<and> startsWith (toLowerCase address) (toLowerCase (bech32 net))))"

datatype AddressType = p2pkh | p2sh | p2wpkh | p2wsh | p2tr | unknown

definition getAddressType :: "runtime \<Rightarrow> string \<Rightarrow> Network \<Rightarrow> AddressType" where
  "getAddressType R address net =
     (if isP2PKHAddress R address net then p2pkh
      else if isP2SHAddress R address net then p2sh
      else if bech32 net \<noteq> [] then
        (case fromBech32 R address of
           None \<Rightarrow> unknown
         | Some decoded \<Rightarrow>
             if version decoded = 0 then (if byteLength (data decoded) = 20 then p2wpkh else p2wsh)
             else if version decoded = 1 then p2tr
             else unknown)
      else unknown)"

section \<open>Sequencing calls that may throw\<close>

definition bind_result :: "error + 'a \<Rightarrow> ('a \<Rightarrow> error + 'b) \<Rightarrow> error + 'b" where
  "bind_result m f = (case m of Inl e \<Rightarrow> Inl e | Inr x \<Rightarrow> f x)"

section \<open>Listing state (signer.ts)\<close>

record seller_state =
  makerFeeBp :: int
  sellerOrdAddress :: string
  price :: int
  ordItem :: IOrdItem
  sellerReceiveAddress :: string
  unsignedListingPSBTBase64 :: "Psbt option"
  signedListingPSBTBase64 :: "Psbt option"
  seller_tapInternalKey :: "string option"

record buyer_state =
  takerFeeBp :: int
  buyerAddress :: string
  buyerTokenReceiveAddress :: string
  feeRateTier :: string
  buyerPublicKey :: "string option"
  unsignedBuyingPSBTBase64 :: "Psbt option"
  unsignedBuyingPSBTInputSize :: "nat option"
  signedBuyingPSBTBase64 :: "Psbt option"
  buyerDummyUTXOs :: "MappedUtxo list option"
  buyerPaymentUTXOs :: "AddressTxsUtxo list option"
  mergedSignedBuyingPSBTBase64 :: "Psbt option"

record IListingState =
  network :: Network
  seller :: seller_state
  buyer :: "buyer_state option"

record IOrdAPIPostPSBTListing =
  req_price :: int
  req_tokenId :: string
  req_sellerReceiveAddress :: string
  req_signedListingPSBTBase64 :: Psbt
  req_tapInternalKey :: "string option"

section \<open>Adding inputs and outputs to a PSBT (bitcoinjs-lib)\<close>

text \<open>
  \<open>psbt.addOutput({address, value})\<close> turns the address into its output script for the
  network and appends the output; it throws when the address is not one of the network
  or the value is no integer in \<open>0 .. 2^53 - 1\<close>.
\<close>

definition addOutput :: "runtime \<Rightarrow> Network \<Rightarrow> Psbt \<Rightarrow> string \<Rightarrow> int option \<Rightarrow> error + Psbt" where
  "addOutput R net psbt address v =
     (case toOutputScript R address net of
        None \<Rightarrow> Inl LibraryError
      | Some s \<Rightarrow>
          (case v of
             None \<Rightarrow> Inl LibraryError
           | Some n \<Rightarrow>
               if 0 \<le> n \<and> n \<le> 9007199254740991
               then Inr (psbt\<lparr> tx_outs := tx_outs psbt @ [\<lparr> script = s, out_value = n \<rparr>],
                               data_outputs := data_outputs psbt @ [[]] \<rparr>)
               else Inl LibraryError))"

text \<open>
  \<open>psbt.addInput({hash, index, ...})\<close> stores the transaction id in reversed byte
  order and appends the input and its map, or throws.
\<close>

definition addInput :: "runtime \<Rightarrow> Psbt \<Rightarrow> string \<Rightarrow> int option \<Rightarrow> PsbtInput \<Rightarrow> error + Psbt" where
  "addInput R psbt h idx input =
     (case idx of
        None \<Rightarrow> Inl LibraryError
      | Some i \<Rightarrow>
          (let hb = reverseBuffer (Buffer_from_hex h) in
           if 0 \<le> i \<and> inputAccepted R psbt hb (nat i) input
           then Inr (psbt\<lparr> tx_ins := tx_ins psbt @ [\<lparr> hash = hb, index = nat i, witness = [] \<rparr>],
                           data_inputs := data_inputs psbt @ [input] \<rparr>)
           else Inl LibraryError))"

text \<open>\<open>arr[i]\<close> for a number \<open>i\<close> that may be \<open>NaN\<close> or negative.\<close>

definition at_index :: "'a list \<Rightarrow> int option \<Rightarrow> 'a option" where
  "at_index xs idx =
     (case idx of None \<Rightarrow> None | Some i \<Rightarrow> if 0 \<le> i then nth_opt xs (nat i) else None)"

text \<open>
  The loop \<open>for i over tx.outs: try { tx.setWitness(i, []) } catch { }\<close>: the witness of
  input \<open>i\<close> is cleared for every index \<open>i\<close> of an output; \<open>setWitness\<close> throws, and is
  caught, when there is no such input.
\<close>

definition clearWitnesses :: "Transaction \<Rightarrow> Transaction" where
  "clearWitnesses t =
     t\<lparr> ins := map (\<lambda>(i, inp). if i < length (outs t) then inp\<lparr> witness := [] \<rparr> else inp)
                   (enumerate 0 (ins t)) \<rparr>"

definition emptyInput :: PsbtInput where
  "emptyInput = \<lparr> nonWitnessUtxo = None, witnessUtxo = None, redeemScript = None,
                  sighashType = None, tapInternalKey = None, finalScriptWitness = None \<rparr>"

text \<open>A string is truthy when it is defined and not empty.\<close>

definition truthy :: "string option \<Rightarrow> bool" where
  "truthy s = (case s of None \<Rightarrow> False | Some x \<Rightarrow> x \<noteq> [])"

text \<open>
  \<open>if (listing.seller.tapInternalKey) input.tapInternalKey = toXOnly(Buffer.from(key, 'hex'))\<close>
\<close>

definition withTapInternalKey :: "string option \<Rightarrow> PsbtInput \<Rightarrow> PsbtInput" where
  "withTapInternalKey key input =
     (case key of
        None \<Rightarrow> input
      | Some k \<Rightarrow>
          if k \<noteq> [] then input\<lparr> tapInternalKey := Some (toXOnly (Buffer_from_hex k)) \<rparr>
          else input)"

section \<open>SellerSigner (signer.ts)\<close>



text \<open>
  The taproot check of \<open>verifySignedListingPSBTBase64\<close>, run over every input map
  (\<open>psbt.data.inputs.forEach\<close>).
\<close>

fun checkTaprootSignatures :: "PsbtInput list \<Rightarrow> error + unit" where
  "checkTaprootSignatures [] = Inr ()"
| "checkTaprootSignatures (input # rest) =
     (case tapInternalKey input of
        None \<Rightarrow> checkTaprootSignatures rest
      | Some k \<Rightarrow>
          (case finalScriptWitness input of
             None \<Rightarrow> Inl (InvalidArgumentError ''Invalid signature - no finalScriptWitness'')
           | Some w \<Rightarrow>
               if byteLength w > 0 then
                 (if w = ''0141''
                  then Inl (InvalidArgumentError
                              ''Invalid signature - no taproot signature present'')
                  else checkTaprootSignatures rest)
               else Inl (InvalidArgumentError ''Invalid signature - no finalScriptWitness'')))"

text \<open>\<open>analyzeResult?.inputs[0]?.is_final !== true\<close>\<close>

definition notFinal :: "IAnalyzePSBTResult option \<Rightarrow> bool" where
  "notFinal analyzeResult =
     (case analyzeResult of
        None \<Rightarrow> True
      | Some r \<Rightarrow> (case nth_opt (inputs r) 0 of None \<Rightarrow> True | Some i \<Rightarrow> \<not> is_final i))"

definition verifySignedListingPSBTBase64 ::
  "runtime \<Rightarrow> IOrdAPIPostPSBTListing \<Rightarrow> Network \<Rightarrow> providers \<Rightarrow> error + unit" where
  "verifySignedListingPSBTBase64 R req net config =
     (let psbt = req_signedListingPSBTBase64 req
      in bind_result (checkTaprootSignatures (data_inputs psbt)) (\<lambda>_.
         bind_result (orThrow (analyzepsbt config psbt) ProviderError) (\<lambda>analyzeResult.
         if notFinal analyzeResult then Inl (InvalidArgumentError ''Invalid signature'')
         else if length (data_inputs psbt) \<noteq> 1
         then Inl (InvalidArgumentError ''Invalid number of inputs'')
         else
         bind_result (orThrow (nth_opt (tx_ins psbt) 0) TypeError) (\<lambda>in0.
         let utxoOutput = generateTxidFromHash (hash in0) @ '':'' @ string_of_nat (index in0)
         in bind_result (orThrow (getTokenByOutput config utxoOutput) ProviderError) (\<lambda>found.
         case found of
           None \<Rightarrow> Inl (InvalidArgumentError ''Invalid tokenId'')
         | Some item \<Rightarrow>
         if item_id item \<noteq> req_tokenId req
         then Inl (InvalidArgumentError ''Invalid tokenId'')
         else
         bind_result (case marketplaceFeeProvider config of
                        None \<Rightarrow> Inr 0
                      | Some getMakerFeeBp \<Rightarrow>
                          orThrow (getMakerFeeBp (owner item)) ProviderError) (\<lambda>makerFeeBp.
         bind_result (orThrow (nth_opt (tx_outs psbt) 0) TypeError) (\<lambda>out0.
         let expectedOutput = getSellerOrdOutputValue (req_price req) makerFeeBp
                                (outputValue item)
         in if out_value out0 \<noteq> expectedOutput
         then Inl (InvalidArgumentError ''Invalid price'')
         else if fromOutputScript R (script out0) net \<noteq> Some (req_sellerReceiveAddress req)
         then Inl (InvalidArgumentError ''Invalid sellerReceiveAddress'')
         else
         bind_result (orThrow (getrawtransaction config (generateTxidFromHash (hash in0)))
                        ProviderError) (\<lambda>txHex.
         bind_result (orThrow (Transaction_fromHex R txHex) LibraryError) (\<lambda>prevTx.
         bind_result (orThrow (nth_opt (outs prevTx) (index in0)) TypeError) (\<lambda>prevOut.
         bind_result (orThrow (fromOutputScript R (script prevOut) net) LibraryError)
           (\<lambda>sellerAddressFromPSBT.
         if owner item \<noteq> sellerAddressFromPSBT
         then Inl (InvalidArgumentError ''Invalid seller address'')
         else Inr ())))))))))))"

section \<open>BuyerSigner: inscription check and UTXO selection (signer.ts)\<close>

definition outpoint :: "string \<Rightarrow> nat \<Rightarrow> string" where
  "outpoint t v = t @ '':'' @ string_of_nat v"

text \<open>
  The loop over \<open>tx.vin\<close> of \<open>doesUtxoContainInscription\<close>. The two indexer calls sit in
  \<open>try/catch\<close> blocks that answer \<open>true\<close>; the calls of the node are not caught.
\<close>

fun scanInputs :: "providers \<Rightarrow> VerboseVin list \<Rightarrow> error + bool" where
  "scanInputs P [] = Inr False"
| "scanInputs P (input # rest) =
     (case getrawtransactionVerbose P (vin_txid input) of
        None \<Rightarrow> Inl ProviderError
      | Some prevTx \<Rightarrow>
          if confirmations prevTx = 0 then Inr True
          else (case getTokenByOutput P (outpoint (vin_txid input) (vin_vout input)) of
                  None \<Rightarrow> Inr True
                | Some (Some found) \<Rightarrow> Inr True
                | Some None \<Rightarrow> scanInputs P rest))"

definition doesUtxoContainInscription :: "providers \<Rightarrow> AddressTxsUtxo \<Rightarrow> error + bool" where
  "doesUtxoContainInscription P utxo =
     (if confirmed (status utxo) then
        (case getTokenByOutput P (outpoint (txid utxo) (vout utxo)) of
           None \<Rightarrow> Inr True
         | Some found \<Rightarrow> Inr (found \<noteq> None))
      else
        (case getrawtransactionVerbose P (txid utxo) of
           None \<Rightarrow> Inl ProviderError
         | Some t \<Rightarrow> scanInputs P (vin t)))"

fun selectDummyUTXOs_loop ::
  "constants \<Rightarrow> runtime \<Rightarrow> providers \<Rightarrow> AddressTxsUtxo list \<Rightarrow> MappedUtxo list
   \<Rightarrow> error + MappedUtxo list option" where
  "selectDummyUTXOs_loop c R P [] result = Inr None"
| "selectDummyUTXOs_loop c R P (utxo # rest) result =
     bind_result (doesUtxoContainInscription P utxo) (\<lambda>tainted.
       if tainted then selectDummyUTXOs_loop c R P rest result
       else if utxo_value utxo \<ge> DUMMY_UTXO_MIN_VALUE c
               \<and> utxo_value utxo \<le> DUMMY_UTXO_MAX_VALUE c
       then bind_result (mapUtxos R P [utxo]) (\<lambda>mapped.
              let result' = result @ [mapped ! 0]
              in if length result' = 2 then Inr (Some result')
                 else selectDummyUTXOs_loop c R P rest result')
       else selectDummyUTXOs_loop c R P rest result)"

definition selectDummyUTXOs ::
  "constants \<Rightarrow> runtime \<Rightarrow> providers \<Rightarrow> AddressTxsUtxo list \<Rightarrow> error + MappedUtxo list option" where
  "selectDummyUTXOs c R P utxos = selectDummyUTXOs_loop c R P utxos []"

fun selectPaymentUTXOs_loop ::
  "providers \<Rightarrow> int \<Rightarrow> int \<Rightarrow> int \<Rightarrow> string \<Rightarrow> AddressTxsUtxo list
   \<Rightarrow> AddressTxsUtxo list \<times> int \<Rightarrow> error + AddressTxsUtxo list \<times> int" where
  "selectPaymentUTXOs_loop P amount vinsLength voutsLength tier [] st = Inr st"
| "selectPaymentUTXOs_loop P amount vinsLength voutsLength tier (utxo # rest)
       (selectedUtxos, selectedAmount) =
     bind_result (doesUtxoContainInscription P utxo) (\<lambda>tainted.
       if tainted
       then selectPaymentUTXOs_loop P amount vinsLength voutsLength tier rest
              (selectedUtxos, selectedAmount)
       else
         (let selectedUtxos' = selectedUtxos @ [utxo];
              selectedAmount' = selectedAmount + utxo_value utxo
          in bind_result
               (calculateTxBytesFee P (vinsLength + int (length selectedUtxos'))
                  voutsLength tier 1) (\<lambda>fee.
               if selectedAmount' \<ge> amount + fee
               then Inr (selectedUtxos', selectedAmount')
               else selectPaymentUTXOs_loop P amount vinsLength voutsLength tier rest
                      (selectedUtxos', selectedAmount'))))"


section \<open>BuyerSigner: the buying PSBT (signer.ts)\<close>

definition getSellerInputAndOutput ::
  "runtime \<Rightarrow> providers \<Rightarrow> IListingState
   \<Rightarrow> error + (string \<times> int option \<times> PsbtInput) \<times> (string \<times> int)" where
  "getSellerInputAndOutput R rpc listing =
     (let parts = split_on CHR '':'' (item_output (ordItem (seller listing)));
          ordinalUtxoTxId = hd parts;
          ordinalUtxoVout = nth_opt parts 1
      in bind_result (orThrow (getrawtransaction rpc ordinalUtxoTxId) ProviderError) (\<lambda>txHex.
         bind_result (orThrow (Transaction_fromHex R txHex) LibraryError) (\<lambda>tx0.
         let t = (if \<not> truthy (seller_tapInternalKey (seller listing))
                  then clearWitnesses tx0 else tx0);
             sellerInput0 = emptyInput\<lparr>
                 nonWitnessUtxo := Some t,
                 witnessUtxo := at_index (outs t) (parseInt R ordinalUtxoVout) \<rparr>;
             sellerInput = withTapInternalKey (seller_tapInternalKey (seller listing))
                             sellerInput0
         in Inr ((ordinalUtxoTxId, parseInt R ordinalUtxoVout, sellerInput),
                 (sellerReceiveAddress (seller listing),
                  getSellerOrdOutputValue (price (seller listing))
                    (makerFeeBp (seller listing))
                    (outputValue (ordItem (seller listing))))))))"

text \<open>
  The input object built for a UTXO of the buyer; the source writes the same statements
  in the loop over the dummy UTXOs and in the loop over the payment UTXOs.
  \<open>Buffer.from(undefined, 'hex')\<close> throws a \<open>TypeError\<close>.
\<close>

definition buyerInput :: "runtime \<Rightarrow> Network \<Rightarrow> buyer_state \<Rightarrow> MappedUtxo \<Rightarrow> error + PsbtInput" where
  "buyerInput R net b u =
     (let input = emptyInput\<lparr> nonWitnessUtxo := Some (tx u) \<rparr>
      in if isP2SHAddress R (buyerAddress b) net then
           (case buyerPublicKey b of
              None \<Rightarrow> Inl TypeError
            | Some pk \<Rightarrow>
                (case p2sh_p2wpkh R (Buffer_from_hex pk) of
                   None \<Rightarrow> Inl LibraryError
                 | Some (p2sh_output, redeem_output) \<Rightarrow>
                     Inr (input\<lparr>
                            witnessUtxo := Some \<lparr> script = p2sh_output,
                                                  out_value = utxo_value u \<rparr>,
                            redeemScript := Some redeem_output \<rparr>)))
         else Inr input)"

fun addDummyInputs ::
  "runtime \<Rightarrow> Network \<Rightarrow> buyer_state \<Rightarrow> MappedUtxo list \<Rightarrow> Psbt \<times> int \<Rightarrow> error + Psbt \<times> int" where
  "addDummyInputs R net b [] st = Inr st"
| "addDummyInputs R net b (dummyUtxo # rest) (psbt, totalInput) =
     bind_result (buyerInput R net b dummyUtxo) (\<lambda>input.
     bind_result (addInput R psbt (txid dummyUtxo) (Some (int (vout dummyUtxo))) input) (\<lambda>psbt'.
     addDummyInputs R net b rest (psbt', totalInput + utxo_value dummyUtxo)))"

fun addPaymentInputs ::
  "runtime \<Rightarrow> providers \<Rightarrow> Network \<Rightarrow> buyer_state \<Rightarrow> AddressTxsUtxo list \<Rightarrow> Psbt \<times> int
   \<Rightarrow> error + Psbt \<times> int" where
  "addPaymentInputs R rpc net b [] st = Inr st"
| "addPaymentInputs R rpc net b (utxo # rest) (psbt, totalInput) =
     bind_result (mapUtxos R rpc [utxo]) (\<lambda>mappedUtxos.
     let mappedUtxo = mappedUtxos ! 0
     in bind_result (buyerInput R net b mappedUtxo) (\<lambda>input.
        bind_result (addInput R psbt (txid mappedUtxo) (Some (int (vout mappedUtxo))) input)
          (\<lambda>psbt'.
        addPaymentInputs R rpc net b rest (psbt', totalInput + utxo_value mappedUtxo))))"

text \<open>\<open>platformFeeAddress || PLATFORM_FEE_ADDRESS\<close>\<close>

definition feeAddressOf :: "constants \<Rightarrow> string option \<Rightarrow> string" where
  "feeAddressOf c platformFeeAddress =
     (case platformFeeAddress of
        None \<Rightarrow> PLATFORM_FEE_ADDRESS c
      | Some a \<Rightarrow> if a \<noteq> [] then a else PLATFORM_FEE_ADDRESS c)"

definition platformFee :: "constants \<Rightarrow> IListingState \<Rightarrow> buyer_state \<Rightarrow> int" where
  "platformFee c listing b =
     (let platformFeeValue =
            (price (seller listing) * (takerFeeBp b + makerFeeBp (seller listing))) div 10000
      in if platformFeeValue > DUMMY_UTXO_MIN_VALUE c then platformFeeValue else 0)"

text \<open>The two guards at the head of \<open>generateUnsignedBuyingPSBTBase64\<close>.\<close>

definition checkBuyer ::
  "IListingState \<Rightarrow> error + buyer_state \<times> MappedUtxo list \<times> AddressTxsUtxo list" where
  "checkBuyer listing =
     (case buyer listing of
        None \<Rightarrow> Inl (InvalidArgumentError ''Buyer address is not set'')
      | Some b \<Rightarrow>
          if buyerAddress b = [] \<or> buyerTokenReceiveAddress b = []
          then Inl (InvalidArgumentError ''Buyer address is not set'')
          else
            (case buyerDummyUTXOs b of
               None \<Rightarrow> Inl (InvalidArgumentError ''Buyer address has not enough utxos'')
             | Some dummies \<Rightarrow>
                 (case buyerPaymentUTXOs b of
                    None \<Rightarrow> Inl (InvalidArgumentError ''Buyer address has not enough utxos'')
                  | Some payments \<Rightarrow>
                      if length dummies \<noteq> 2
                      then Inl (InvalidArgumentError ''Buyer address has not enough utxos'')
                      else Inr (b, dummies, payments))))"

text \<open>
  The value of the first output:
  \<open>dummy[0].value + dummy[1].value + Number(location.split(':')[2])\<close>.
\<close>

definition dummyOutputValue :: "runtime \<Rightarrow> IListingState \<Rightarrow> MappedUtxo list \<Rightarrow> int option" where
  "dummyOutputValue R listing dummies =
     (case Number R (nth_opt (split_on CHR '':'' (location (ordItem (seller listing)))) 2) of
        None \<Rightarrow> None
      | Some offset \<Rightarrow> Some (utxo_value (dummies ! 0) + utxo_value (dummies ! 1) + offset))"

text \<open>The construction from the first input up to the two new dummy outputs.\<close>

definition buyingPSBT_beforeFee ::
  "constants \<Rightarrow> runtime \<Rightarrow> providers \<Rightarrow> IListingState \<Rightarrow> string option
   \<Rightarrow> buyer_state \<Rightarrow> MappedUtxo list \<Rightarrow> AddressTxsUtxo list \<Rightarrow> error + Psbt \<times> int" where
  "buyingPSBT_beforeFee c R P listing platformFeeAddress b dummies payments =
     (let net = network listing
      in bind_result (addDummyInputs R net b dummies (new_Psbt, 0)) (\<lambda>(psbt1, totalInput1).
         bind_result (addOutput R net psbt1 (buyerAddress b)
                        (dummyOutputValue R listing dummies)) (\<lambda>psbt2.
         bind_result (addOutput R net psbt2 (buyerTokenReceiveAddress b)
                        (Some (ORDINALS_POSTAGE_VALUE c))) (\<lambda>psbt3.
         bind_result (getSellerInputAndOutput R P listing)
           (\<lambda>((sellerHash, sellerIndex, sellerInput), (sellerAddress, sellerValue)).
         bind_result (addInput R psbt3 sellerHash sellerIndex sellerInput) (\<lambda>psbt4.
         bind_result (addOutput R net psbt4 sellerAddress (Some sellerValue)) (\<lambda>psbt5.
         bind_result (addPaymentInputs R P net b payments (psbt5, totalInput1))
           (\<lambda>(psbt6, totalInput).
         let feeAddress = feeAddressOf c platformFeeAddress;
             platformFeeValue = platformFee c listing b
         in bind_result (if platformFeeValue > 0 \<and> feeAddress \<noteq> []
                         then addOutput R net psbt6 feeAddress (Some platformFeeValue)
                         else Inr psbt6) (\<lambda>psbt7.
            bind_result (addOutput R net psbt7 (buyerAddress b)
                           (Some (DUMMY_UTXO_VALUE c))) (\<lambda>psbt8.
            bind_result (addOutput R net psbt8 (buyerAddress b)
                           (Some (DUMMY_UTXO_VALUE c))) (\<lambda>psbt9.
            Inr (psbt9, totalInput))))))))))))"

definition totalOutputOf :: "Psbt \<Rightarrow> int" where
  "totalOutputOf psbt = sum_list (map out_value (tx_outs psbt))"

text \<open>The fee, the funds check and the change output.\<close>

definition buyingPSBT_withChange ::
  "constants \<Rightarrow> runtime \<Rightarrow> providers \<Rightarrow> Network \<Rightarrow> buyer_state \<Rightarrow> Psbt \<times> int \<Rightarrow> error + Psbt" where
  "buyingPSBT_withChange c R P net b st =
     (case st of (psbt, totalInput) \<Rightarrow>
        bind_result (calculateTxBytesFee P (int (length (tx_ins psbt)))
                       (int (length (tx_outs psbt))) (feeRateTier b) 1) (\<lambda>fee.
        let totalOutput = totalOutputOf psbt;
            changeValue = totalInput - totalOutput - fee
        in if changeValue < 0
           then Inl (InvalidArgumentError
                  (''Your wallet doesn'' @ [CHR 0x27]
                   @ ''t have enough funds to buy this inscription.''))
           else if changeValue > DUMMY_UTXO_MIN_VALUE c
           then addOutput R net psbt (buyerAddress b) (Some changeValue)
           else Inr psbt))"

definition buyingPSBT ::
  "constants \<Rightarrow> runtime \<Rightarrow> providers \<Rightarrow> IListingState \<Rightarrow> string option \<Rightarrow> error + Psbt" where
  "buyingPSBT c R P listing platformFeeAddress =
     bind_result (checkBuyer listing) (\<lambda>(b, dummies, payments).
     bind_result (buyingPSBT_beforeFee c R P listing platformFeeAddress b dummies payments)
       (buyingPSBT_withChange c R P (network listing) b))"

text \<open>
  \<open>BuyerSigner.generateUnsignedBuyingPSBTBase64\<close>: the two assignments to the listing are
  the last statements before \<open>return listing\<close>.
\<close>

definition generateUnsignedBuyingPSBTBase64 ::
  "constants \<Rightarrow> runtime \<Rightarrow> providers \<Rightarrow> IListingState \<Rightarrow> string option
   \<Rightarrow> error option \<times> IListingState" where
  "generateUnsignedBuyingPSBTBase64 c R P listing platformFeeAddress =
     (case buyingPSBT c R P listing platformFeeAddress of
        Inl e \<Rightarrow> (Some e, listing)
      | Inr psbt \<Rightarrow>
          (None,
           listing\<lparr> buyer :=
             map_option
               (\<lambda>b. b\<lparr> unsignedBuyingPSBTBase64 := Some psbt,
                        unsignedBuyingPSBTInputSize := Some (length (data_inputs psbt)) \<rparr>)
               (buyer listing) \<rparr>))"

section \<open>BuyerSigner: creating dummy UTXOs (signer.ts)\<close>

definition createDummyInput ::
  "runtime \<Rightarrow> Network \<Rightarrow> string \<Rightarrow> string option \<Rightarrow> MappedUtxo \<Rightarrow> error + PsbtInput" where
  "createDummyInput R net address pubkey u =
     (let input = emptyInput\<lparr> nonWitnessUtxo := Some (tx u) \<rparr>
      in if isP2SHAddress R address net then
           (case pubkey of
              None \<Rightarrow> Inl TypeError
            | Some pk \<Rightarrow>
                (case p2sh_p2wpkh R (Buffer_from_hex pk) of
                   None \<Rightarrow> Inl LibraryError
                 | Some (p2sh_output, redeem_output) \<Rightarrow>
                     Inr (input\<lparr> witnessUtxo := nth_opt (outs (tx u)) (vout u),
                                 redeemScript := Some redeem_output \<rparr>)))
         else Inr input)"

fun createDummy_loop ::
  "constants \<Rightarrow> runtime \<Rightarrow> providers \<Rightarrow> Network \<Rightarrow> string \<Rightarrow> string option \<Rightarrow> int
   \<Rightarrow> MappedUtxo list \<Rightarrow> Psbt \<times> int \<times> int \<Rightarrow> error + Psbt \<times> int \<times> int" where
  "createDummy_loop c R P net address pubkey recommendedFee [] st = Inr st"
| "createDummy_loop c R P net address pubkey recommendedFee (utxo # rest)
       (psbt, totalValue, paymentUtxoCount) =
     bind_result
       (doesUtxoContainInscription P
          \<lparr> txid = txid utxo, vout = vout utxo, utxo_value = utxo_value utxo,
            status = status utxo \<rparr>) (\<lambda>tainted.
       if tainted
       then createDummy_loop c R P net address pubkey recommendedFee rest
              (psbt, totalValue, paymentUtxoCount)
       else
         bind_result (createDummyInput R net address pubkey utxo) (\<lambda>input.
         bind_result (addInput R psbt (txid utxo) (Some (int (vout utxo))) input) (\<lambda>psbt'.
         let totalValue' = totalValue + utxo_value utxo;
             paymentUtxoCount' = paymentUtxoCount + 1;
             fees = calculateTxBytesFeeWithRate paymentUtxoCount' 2 recommendedFee 1
         in if totalValue' \<ge> DUMMY_UTXO_VALUE c * 2 + fees
            then Inr (psbt', totalValue', paymentUtxoCount')
            else createDummy_loop c R P net address pubkey recommendedFee rest
                   (psbt', totalValue', paymentUtxoCount'))))"

definition generateUnsignedCreateDummyUtxoPSBTBase64 ::
  "constants \<Rightarrow> runtime \<Rightarrow> providers \<Rightarrow> string \<Rightarrow> string option \<Rightarrow> AddressTxsUtxo list
   \<Rightarrow> string \<Rightarrow> Network \<Rightarrow> error + Psbt" where
  "generateUnsignedCreateDummyUtxoPSBTBase64 c R P address pubkey unqualifiedUtxos tier net =
     bind_result (mapUtxos R P unqualifiedUtxos) (\<lambda>mappedUtxos.
     bind_result (orThrow (getFees P tier) ProviderError) (\<lambda>recommendedFee.
     bind_result (createDummy_loop c R P net address pubkey recommendedFee mappedUtxos
                    (new_Psbt, 0, 0)) (\<lambda>(psbt, totalValue, paymentUtxoCount).
     let finalFees = calculateTxBytesFeeWithRate paymentUtxoCount 2 recommendedFee 1;
         changeValue = totalValue - DUMMY_UTXO_VALUE c * 2 - finalFees
     in if changeValue < 0
        then Inl (InvalidArgumentError
                    ''You might have pending transactions or not enough funds'')
        else
          bind_result (addOutput R net psbt address (Some (DUMMY_UTXO_VALUE c))) (\<lambda>psbt1.
          bind_result (addOutput R net psbt1 address (Some (DUMMY_UTXO_VALUE c))) (\<lambda>psbt2.
          if changeValue > DUMMY_UTXO_MIN_VALUE c
          then addOutput R net psbt2 address (Some changeValue)
          else Inr psbt2)))))"

section \<open>BuyerSigner: merging the two signed halves (signer.ts)\<close>

text \<open>
  \<open>arr[i] = v\<close> on a JavaScript array: it replaces slot \<open>i\<close>, or appends when \<open>i\<close> is the
  length; beyond the length it leaves holes, on which \<open>toBase64\<close> throws.
\<close>

definition js_assign :: "'a list \<Rightarrow> nat \<Rightarrow> 'a \<Rightarrow> 'a list option" where
  "js_assign xs i v =
     (if i < length xs then Some (xs[i := v])
      else if i = length xs then Some (xs @ [v])
      else None)"

text \<open>
  The two assignments of \<open>mergeSignedBuyingPSBTBase64\<close>, on the data of the two parsed
  PSBTs: slot 2 of the buyer's transaction inputs and of the buyer's input maps receive
  input 0 of the seller. When the seller PSBT has no input, \<open>undefined\<close> is stored in
  slot 2 and \<open>toBase64\<close> throws on it.
\<close>

definition spliceSellerInput :: "Psbt \<Rightarrow> Psbt \<Rightarrow> error + Psbt" where
  "spliceSellerInput sellerSignedPsbt buyerSignedPsbt =
     (case nth_opt (tx_ins sellerSignedPsbt) 0 of
        None \<Rightarrow> Inl TypeError
      | Some sellerTxIn \<Rightarrow>
          (case nth_opt (data_inputs sellerSignedPsbt) 0 of
             None \<Rightarrow> Inl TypeError
           | Some sellerInput \<Rightarrow>
               (case js_assign (tx_ins buyerSignedPsbt)
                       BUYING_PSBT_SELLER_SIGNATURE_INDEX sellerTxIn of
                  None \<Rightarrow> Inl TypeError
                | Some ins' \<Rightarrow>
                    (case js_assign (data_inputs buyerSignedPsbt)
                            BUYING_PSBT_SELLER_SIGNATURE_INDEX sellerInput of
                       None \<Rightarrow> Inl TypeError
                     | Some inputs' \<Rightarrow>
                         Inr (buyerSignedPsbt\<lparr> tx_ins := ins', data_inputs := inputs' \<rparr>)))))"

text \<open>
  The merge takes and returns base64 text. The parser and the serialiser of bitcoinjs-lib
  are parameters: \<open>fromBase64\<close> (\<open>None\<close> when it throws) and \<open>toBase64\<close>.
\<close>

record codec =
  fromBase64 :: "string \<Rightarrow> Psbt option"
  toBase64 :: "Psbt \<Rightarrow> string"

text \<open>
  The function works on objects: \<open>Psbt.fromBase64(text, {network})\<close> creates a new
  object, which keeps the network in its options, and the two assignments mutate the
  buyer's object. The objects live in a heap, a list indexed by reference, which the
  function takes and returns; the objects that existed before the call are the first
  \<open>length h\<close> cells.
\<close>

record PsbtObject =
  opts_network :: Network
  psbt_data :: Psbt

type_synonym heap = "PsbtObject list"

definition bitcoin_networks_bitcoin :: Network where
  "bitcoin_networks_bitcoin = \<lparr> pubKeyHash = 0, scriptHash = 5, bech32 = ''bc'' \<rparr>"

definition Psbt_fromBase64 :: "codec \<Rightarrow> string \<Rightarrow> Network \<Rightarrow> heap \<Rightarrow> (error + nat) \<times> heap" where
  "Psbt_fromBase64 C b64 net h =
     (case fromBase64 C b64 of
        None \<Rightarrow> (Inl LibraryError, h)
      | Some parsed \<Rightarrow>
          (Inr (length h), h @ [\<lparr> opts_network = net, psbt_data = parsed \<rparr>]))"

text \<open>
  \<open>BuyerSigner.mergeSignedBuyingPSBTBase64\<close>. When the assignments leave a hole or
  \<open>undefined\<close> in the buyer's arrays, \<open>toBase64\<close> throws; the buyer's object, which
  nothing refers to after the call, is then left as it was parsed.
\<close>

definition mergeSignedBuyingPSBTBase64 ::
  "codec \<Rightarrow> string \<Rightarrow> string \<Rightarrow> Network option \<Rightarrow> heap \<Rightarrow> (error + string) \<times> heap" where
  "mergeSignedBuyingPSBTBase64 C signedListing signedBuying net h =
     (let opts = (case net of None \<Rightarrow> bitcoin_networks_bitcoin | Some n \<Rightarrow> n)
      in case Psbt_fromBase64 C signedListing opts h of
           (Inl e, h1) \<Rightarrow> (Inl e, h1)
         | (Inr sellerSignedPsbt, h1) \<Rightarrow>
             (case Psbt_fromBase64 C signedBuying opts h1 of
                (Inl e, h2) \<Rightarrow> (Inl e, h2)
              | (Inr buyerSignedPsbt, h2) \<Rightarrow>
                  (case spliceSellerInput (psbt_data (h2 ! sellerSignedPsbt))
                          (psbt_data (h2 ! buyerSignedPsbt)) of
                     Inl e \<Rightarrow> (Inl e, h2)
                   | Inr merged \<Rightarrow>
                       (let h3 = h2[buyerSignedPsbt :=
                                      (h2 ! buyerSignedPsbt)\<lparr> psbt_data := merged \<rparr>]
                        in (Inr (toBase64 C (psbt_data (h3 ! buyerSignedPsbt))), h3)))))"

section \<open>A concrete runtime, providers and listings\<close>

text \<open>
  A small world on which the functions above can be run: numerals are unsigned decimals,
  an address is valid when it starts with \<open>J\<close> and is its own output script, the raw
  transaction of a txid is the txid itself, and every input is accepted.
\<close>

definition decimal :: "string \<Rightarrow> nat" where
  "decimal s = foldl (\<lambda>n ch. 10 * n + (of_char ch - 48)) 0 s"

definition isDigit :: "char \<Rightarrow> bool" where
  "isDigit ch = (ch \<in> set ''0123456789'')"

definition example_Number :: "string option \<Rightarrow> int option" where
  "example_Number s =
     (case s of
        None \<Rightarrow> None
      | Some t \<Rightarrow> if list_all isDigit t then Some (int (decimal t)) else None)"

definition example_parseInt :: "string option \<Rightarrow> int option" where
  "example_parseInt s =
     (case s of
        None \<Rightarrow> None
      | Some t \<Rightarrow>
          (let d = takeWhile isDigit t in if d = [] then None else Some (int (decimal d))))"

definition example_parentTx :: Transaction where
  "example_parentTx =
     \<lparr> ins = [\<lparr> hash = ''00'', index = 0, witness = [''3044''] \<rparr>],
       outs = [\<lparr> script = ''JSeller'', out_value = 10000 \<rparr>] \<rparr>"

definition example_runtime :: runtime where
  "example_runtime =
     \<lparr> Number = example_Number,
       parseInt = example_parseInt,
       fromBase58Check =
         (\<lambda>a. if take 1 a = ''J'' then Some (16, replicate 40 CHR ''0'') else None),
       fromBech32 =
         (\<lambda>a. if a = ''bc1qw508d6qejxtdg4y5r3zarvary0c5xw7kv8f3t4''
               then Some \<lparr> version = 0, prefix_b32 = ''bc'',
                           data = ''751e76e8199196d454941c45d1b3a323f1433bd6'' \<rparr>
               else None),
       toOutputScript = (\<lambda>a net. if take 1 a = ''J'' then Some a else None),
       fromOutputScript = (\<lambda>s net. if take 1 s = ''J'' then Some s else None),
       Transaction_fromHex = (\<lambda>hex. if hex = [] then None else Some example_parentTx),
       p2sh_p2wpkh = (\<lambda>pk. None),
       inputAccepted = (\<lambda>psbt h i input. True) \<rparr>"

definition example_item :: IOrdItem where
  "example_item =
     \<lparr> item_id = ''token'', owner = ''JSeller'', location = ''aa:0:3000'',
       outputValue = 10000, item_output = ''aa:0'' \<rparr>"

definition example_providers :: providers where
  "example_providers =
     \<lparr> getrawtransaction = (\<lambda>t. Some t),
       getrawtransactionVerbose =
         (\<lambda>t. if t = ''c1'' then Some \<lparr> confirmations = 0, vin = [\<lparr> vin_txid = ''c2'', vin_vout = 0 \<rparr>] \<rparr>
               else if t = ''c2'' then Some \<lparr> confirmations = 3, vin = [] \<rparr>
               else if t = ''c3''
               then Some \<lparr> confirmations = 0,
                           vin = [\<lparr> vin_txid = ''ee'', vin_vout = 0 \<rparr>,
                                  \<lparr> vin_txid = ''c1'', vin_vout = 0 \<rparr>] \<rparr>
               else if t = ''c4''
               then Some \<lparr> confirmations = 0, vin = [\<lparr> vin_txid = ''c2'', vin_vout = 0 \<rparr>] \<rparr>
               else if t = ''c5''
               then Some \<lparr> confirmations = 0, vin = [\<lparr> vin_txid = ''c1'', vin_vout = 0 \<rparr>] \<rparr>
               else if t = ''c6''
               then Some \<lparr> confirmations = 0,
                           vin = [\<lparr> vin_txid = ''c1'', vin_vout = 0 \<rparr>,
                                  \<lparr> vin_txid = ''ee'', vin_vout = 0 \<rparr>] \<rparr>
               else None),
       analyzepsbt =
         (\<lambda>psbt. Some (Some \<lparr> inputs = [\<lparr> has_utxo = True, is_final = True \<rparr>] \<rparr>)),
       getFees = (\<lambda>tier. Some 1),
       getTokenByOutput = (\<lambda>out. if out = ''aa:0'' then Some (Some example_item) else Some None),
       marketplaceFeeProvider = None \<rparr>"

definition example_utxo :: "string \<Rightarrow> int \<Rightarrow> bool \<Rightarrow> AddressTxsUtxo" where
  "example_utxo t v conf =
     \<lparr> txid = t, vout = 0, utxo_value = v, status = \<lparr> confirmed = conf \<rparr> \<rparr>"

definition example_dummy :: "string \<Rightarrow> MappedUtxo" where
  "example_dummy t =
     \<lparr> txid = t, vout = 0, utxo_value = 600, status = \<lparr> confirmed = True \<rparr>,
       tx = example_parentTx \<rparr>"

text \<open>
  A listing with the buyer section filled in: the price and the two fee rates vary, the
  inscription sits at offset 3000 of the output \<open>aa:0\<close> of 10000 satoshis, the buyer holds
  two dummies of 600 and one payment UTXO.
\<close>

definition example_listing :: "int \<Rightarrow> int \<Rightarrow> int \<Rightarrow> int \<Rightarrow> IListingState" where
  "example_listing p maker taker funds =
     \<lparr> network = chain_network junkcoinMainnet,
       seller = \<lparr> makerFeeBp = maker, sellerOrdAddress = ''JSeller'', price = p,
                  ordItem = example_item, sellerReceiveAddress = ''JPayout'',
                  unsignedListingPSBTBase64 = None, signedListingPSBTBase64 = None,
                  seller_tapInternalKey = None \<rparr>,
       buyer = Some \<lparr> takerFeeBp = taker, buyerAddress = ''JBuyer'',
                       buyerTokenReceiveAddress = ''JOrdinals'', feeRateTier = ''hourFee'',
                       buyerPublicKey = None, unsignedBuyingPSBTBase64 = None,
                       unsignedBuyingPSBTInputSize = None, signedBuyingPSBTBase64 = None,
                       buyerDummyUTXOs = Some [example_dummy ''d1'', example_dummy ''d2''],
                       buyerPaymentUTXOs = Some [example_utxo ''f1'' funds True],
                       mergedSignedBuyingPSBTBase64 = None \<rparr> \<rparr>"

definition example_constants :: constants where
  "example_constants = default_constants\<lparr> PLATFORM_FEE_ADDRESS := ''JPlatform'' \<rparr>"

text \<open>Further data: PSBTs to merge, requests to verify, unconfirmed UTXOs.\<close>

definition example_txin :: "string \<Rightarrow> TransactionInput" where
  "example_txin h = \<lparr> hash = h, index = 0, witness = [] \<rparr>"

definition example_sellerPsbt :: Psbt where
  "example_sellerPsbt =
     \<lparr> tx_version = 2, tx_locktime = 0,
       tx_ins = [example_txin ''aa''],
       tx_outs = [\<lparr> script = ''JPayout'', out_value = 100010000 \<rparr>],
       data_inputs = [emptyInput\<lparr> nonWitnessUtxo := Some example_parentTx,
                                  sighashType := Some 131 \<rparr>],
       data_outputs = [[]] \<rparr>"

definition example_buyerPsbt :: Psbt where
  "example_buyerPsbt =
     \<lparr> tx_version = 2, tx_locktime = 0,
       tx_ins = [example_txin ''d1'', example_txin ''d2'', example_txin ''aa'',
                 example_txin ''f1''],
       tx_outs = [\<lparr> script = ''JBuyer'', out_value = 4200 \<rparr>,
                  \<lparr> script = ''JOrdinals'', out_value = 10000 \<rparr>,
                  \<lparr> script = ''JPayout'', out_value = 100010000 \<rparr>],
       data_inputs = [emptyInput\<lparr> redeemScript := Some ''d1'' \<rparr>,
                      emptyInput\<lparr> redeemScript := Some ''d2'' \<rparr>,
                      emptyInput,
                      emptyInput\<lparr> redeemScript := Some ''f1'' \<rparr>],
       data_outputs = [[], [], []] \<rparr>"

definition example_request :: "Psbt \<Rightarrow> IOrdAPIPostPSBTListing" where
  "example_request psbt =
     \<lparr> req_price = 100000000, req_tokenId = ''token'',
       req_sellerReceiveAddress = ''JPayout'', req_signedListingPSBTBase64 = psbt,
       req_tapInternalKey = None \<rparr>"

text \<open>
  A codec that knows the text of the two example PSBTs and prints a PSBT as the
  transaction ids of its inputs.
\<close>

definition example_codec :: codec where
  "example_codec =
     \<lparr> fromBase64 =
         (\<lambda>b64. if b64 = ''c2VsbGVy'' then Some example_sellerPsbt
                 else if b64 = ''YnV5ZXI='' then Some example_buyerPsbt
                 else None),
       toBase64 = (\<lambda>psbt. concat (map hash (tx_ins psbt))) \<rparr>"

definition example_wallet :: "AddressTxsUtxo list" where
  "example_wallet =
     [example_utxo ''f1'' 700 True, example_utxo ''f2'' 500 True,
      example_utxo ''f3'' 5000 True, example_utxo ''c1'' 9000 False,
      example_utxo ''f4'' 2000 True, example_utxo ''aa'' 90000 True]"

definition example_sellerPsbt_noOutputs :: Psbt where
  "example_sellerPsbt_noOutputs = example_sellerPsbt\<lparr> tx_outs := [], data_outputs := [] \<rparr>"

section \<open>The inscription policy in the words of the specification\<close>

text \<open>The indexer flags an outpoint when it answers non-null or fails.\<close>

definition indexerFlags :: "providers \<Rightarrow> string \<Rightarrow> bool" where
  "indexerFlags P out = (getTokenByOutput P out \<noteq> Some None)"

text \<open>The previous transaction of an input is known to the node and unconfirmed.\<close>

definition parentUnconfirmed :: "providers \<Rightarrow> VerboseVin \<Rightarrow> bool" where
  "parentUnconfirmed P input =
     (case getrawtransactionVerbose P (vin_txid input) of
        None \<Rightarrow> False
      | Some prevTx \<Rightarrow> confirmations prevTx = 0)"

text \<open>
  The policy of section 4.2: a confirmed UTXO is judged by the indexer on its own
  outpoint; an unconfirmed one is an inscription when some input of its transaction has
  an unconfirmed parent or an outpoint the indexer flags.
\<close>

definition spec_contains_inscription :: "providers \<Rightarrow> AddressTxsUtxo \<Rightarrow> bool" where
  "spec_contains_inscription P utxo =
     (if confirmed (status utxo) then indexerFlags P (outpoint (txid utxo) (vout utxo))
      else
        (case getrawtransactionVerbose P (txid utxo) of
           None \<Rightarrow> False
         | Some t \<Rightarrow>
             list_ex (\<lambda>input. parentUnconfirmed P input
                              \<or> indexerFlags P (outpoint (vin_txid input) (vin_vout input)))
               (vin t)))"

text \<open>
  The lookups of the node that the check makes are answered: none for a confirmed UTXO;
  for an unconfirmed one its own transaction and the previous transaction of each input
  in turn, up to the first input that has an unconfirmed parent or a flagged outpoint.
\<close>

fun parentsAnswered :: "providers \<Rightarrow> VerboseVin list \<Rightarrow> bool" where
  "parentsAnswered P [] = True"
| "parentsAnswered P (input # rest) =
     (getrawtransactionVerbose P (vin_txid input) \<noteq> None
      \<and> (parentUnconfirmed P input
         \<or> indexerFlags P (outpoint (vin_txid input) (vin_vout input))
         \<or> parentsAnswered P rest))"

definition lookupsAnswered :: "providers \<Rightarrow> AddressTxsUtxo \<Rightarrow> bool" where
  "lookupsAnswered P utxo =
     (confirmed (status utxo)
      \<or> (case getrawtransactionVerbose P (txid utxo) of
            None \<Rightarrow> False
          | Some t \<Rightarrow> parentsAnswered P (vin t)))"

section \<open>Payment selection in the words of the specification\<close>


definition totalValue :: "AddressTxsUtxo list \<Rightarrow> int" where
  "totalValue us = sum_list (map utxo_value us)"


text \<open>The outputs of the buying PSBT stored in a listing, when there is one.\<close>

definition generatedOutputs :: "IListingState \<Rightarrow> TransactionOutput list option" where
  "generatedOutputs listing =
     (case buyer listing of
        None \<Rightarrow> None
      | Some b \<Rightarrow>
          (case unsignedBuyingPSBTBase64 b of
             None \<Rightarrow> None
           | Some psbt \<Rightarrow> Some (tx_outs psbt)))"

section \<open>Basic facts about the construction\<close>

lemma split_on_not_empty: "split_on c s \<noteq> []"
  by (induction s) simp_all

lemma bind_result_Inr [simp]: "bind_result (Inr x) f = f x"
  by (simp add: bind_result_def)

lemma bind_result_Inl [simp]: "bind_result (Inl e) f = Inl e"
  by (simp add: bind_result_def)

lemma bind_result_eq_Inr:
  "bind_result m f = Inr y \<longleftrightarrow> (\<exists>x. m = Inr x \<and> f x = Inr y)"
  by (cases m) simp_all

lemma orThrow_eq_Inr [simp]: "orThrow r e = Inr x \<longleftrightarrow> r = Some x"
  by (cases r) (simp_all add: orThrow_def)

lemma addOutput_Inr:
  assumes "addOutput R net p a v = Inr p'"
  obtains s n where "toOutputScript R a net = Some s" and "v = Some n"
    and "tx_outs p' = tx_outs p @ [\<lparr> script = s, out_value = n \<rparr>]"
    and "tx_ins p' = tx_ins p" and "data_inputs p' = data_inputs p"
  using assms
  by (auto simp: addOutput_def split: option.splits if_splits)

lemma addInput_Inr:
  assumes "addInput R p h idx input = Inr p'"
  shows "tx_outs p' = tx_outs p \<and> length (tx_ins p') = Suc (length (tx_ins p))
         \<and> data_inputs p' = data_inputs p @ [input]"
  using assms
  by (auto simp: addInput_def Let_def split: option.splits if_splits)

lemma addDummyInputs_outs:
  "addDummyInputs R net b ds (p, t) = Inr (p', t') \<Longrightarrow> tx_outs p' = tx_outs p"
proof (induction ds arbitrary: p t)
  case Nil
  then show ?case by simp
next
  case (Cons d ds)
  from Cons.prems obtain input p1 where
    a: "addInput R p (txid d) (Some (int (vout d))) input = Inr p1" and
    r: "addDummyInputs R net b ds (p1, t + utxo_value d) = Inr (p', t')"
    by (auto simp: bind_result_eq_Inr)
  from Cons.IH [OF r] addInput_Inr [OF a] show ?case by simp
qed

lemma addPaymentInputs_outs:
  "addPaymentInputs R rpc net b us (p, t) = Inr (p', t') \<Longrightarrow> tx_outs p' = tx_outs p"
proof (induction us arbitrary: p t)
  case Nil
  then show ?case by simp
next
  case (Cons u us)
  from Cons.prems obtain m :: "MappedUtxo list" and input p1 where
    a: "addInput R p (txid (m ! 0)) (Some (int (vout (m ! 0)))) input = Inr p1" and
    r: "addPaymentInputs R rpc net b us (p1, t + utxo_value (m ! 0)) = Inr (p', t')"
    by (auto simp: bind_result_eq_Inr Let_def)
  from Cons.IH [OF r] addInput_Inr [OF a] show ?case by simp
qed


lemma getSellerInputAndOutput_Inr:
  assumes "getSellerInputAndOutput R rpc listing = Inr ((h, i, inp), (a, v))"
  shows "a = sellerReceiveAddress (seller listing)
         \<and> v = getSellerOrdOutputValue (price (seller listing)) (makerFeeBp (seller listing))
                 (outputValue (ordItem (seller listing)))"
  using assms
  by (auto simp: getSellerInputAndOutput_def Let_def bind_result_eq_Inr)

lemma buyingPSBT_beforeFee_outs:
  assumes ok: "buyingPSBT_beforeFee c R P listing pfa b dummies payments = Inr (p, t)"
  shows "\<exists>s0 v0 s1 s2 feeOuts.
           toOutputScript R (buyerAddress b) (network listing) = Some s0
         \<and> dummyOutputValue R listing dummies = Some v0
         \<and> toOutputScript R (buyerTokenReceiveAddress b) (network listing) = Some s1
         \<and> toOutputScript R (sellerReceiveAddress (seller listing)) (network listing) = Some s2
         \<and> (if platformFee c listing b > 0 \<and> feeAddressOf c pfa \<noteq> []
             then \<exists>sf. toOutputScript R (feeAddressOf c pfa) (network listing) = Some sf
                   \<and> feeOuts = [\<lparr> script = sf, out_value = platformFee c listing b \<rparr>]
             else feeOuts = [])
         \<and> tx_outs p =
             [\<lparr> script = s0, out_value = v0 \<rparr>,
              \<lparr> script = s1, out_value = ORDINALS_POSTAGE_VALUE c \<rparr>,
              \<lparr> script = s2,
                out_value = getSellerOrdOutputValue (price (seller listing))
                              (makerFeeBp (seller listing))
                              (outputValue (ordItem (seller listing))) \<rparr>]
             @ feeOuts
             @ [\<lparr> script = s0, out_value = DUMMY_UTXO_VALUE c \<rparr>,
                \<lparr> script = s0, out_value = DUMMY_UTXO_VALUE c \<rparr>]"
proof -
  let ?net = "network listing"
  from ok obtain p1 t1 p2 p3 sh si sinp sa sv p4 p5 p6 p7 p8 where
    s1: "addDummyInputs R ?net b dummies (new_Psbt, 0) = Inr (p1, t1)" and
    s2: "addOutput R ?net p1 (buyerAddress b) (dummyOutputValue R listing dummies) = Inr p2" and
    s3: "addOutput R ?net p2 (buyerTokenReceiveAddress b) (Some (ORDINALS_POSTAGE_VALUE c)) = Inr p3" and
    s4: "getSellerInputAndOutput R P listing = Inr ((sh, si, sinp), (sa, sv))" and
    s5: "addInput R p3 sh si sinp = Inr p4" and
    s6: "addOutput R ?net p4 sa (Some sv) = Inr p5" and
    s7: "addPaymentInputs R P ?net b payments (p5, t1) = Inr (p6, t)" and
    s8: "(if platformFee c listing b > 0 \<and> feeAddressOf c pfa \<noteq> []
          then addOutput R ?net p6 (feeAddressOf c pfa) (Some (platformFee c listing b))
          else Inr p6) = Inr p7" and
    s9: "addOutput R ?net p7 (buyerAddress b) (Some (DUMMY_UTXO_VALUE c)) = Inr p8" and
    s10: "addOutput R ?net p8 (buyerAddress b) (Some (DUMMY_UTXO_VALUE c)) = Inr p"
    by (auto simp: buyingPSBT_beforeFee_def Let_def bind_result_eq_Inr split: prod.splits)
  have o1: "tx_outs p1 = []"
    using addDummyInputs_outs [OF s1] by (simp add: new_Psbt_def)
  from s2 obtain s0 v0 where
    a0: "toOutputScript R (buyerAddress b) ?net = Some s0" and
    v0: "dummyOutputValue R listing dummies = Some v0" and
    o2: "tx_outs p2 = tx_outs p1 @ [\<lparr> script = s0, out_value = v0 \<rparr>]"
    by (rule addOutput_Inr)
  from s3 obtain sc1 n1 where
    a1: "toOutputScript R (buyerTokenReceiveAddress b) ?net = Some sc1" and
    n1: "Some (ORDINALS_POSTAGE_VALUE c) = Some n1" and
    o3: "tx_outs p3 = tx_outs p2 @ [\<lparr> script = sc1, out_value = n1 \<rparr>]"
    by (rule addOutput_Inr)
  have sel: "sa = sellerReceiveAddress (seller listing)"
       "sv = getSellerOrdOutputValue (price (seller listing)) (makerFeeBp (seller listing))
                 (outputValue (ordItem (seller listing)))"
    using getSellerInputAndOutput_Inr [OF s4] by simp_all
  have o4: "tx_outs p4 = tx_outs p3"
    using addInput_Inr [OF s5] by simp
  from s6 obtain sc2 n2 where
    a2: "toOutputScript R sa ?net = Some sc2" and
    n2: "Some sv = Some n2" and
    o5: "tx_outs p5 = tx_outs p4 @ [\<lparr> script = sc2, out_value = n2 \<rparr>]"
    by (rule addOutput_Inr)
  have o6: "tx_outs p6 = tx_outs p5"
    using addPaymentInputs_outs [OF s7] .
  obtain feeOuts where
    f: "if platformFee c listing b > 0 \<and> feeAddressOf c pfa \<noteq> []
        then \<exists>sf. toOutputScript R (feeAddressOf c pfa) ?net = Some sf
              \<and> feeOuts = [\<lparr> script = sf, out_value = platformFee c listing b \<rparr>]
        else feeOuts = []" and
    o7: "tx_outs p7 = tx_outs p6 @ feeOuts"
  proof (cases "platformFee c listing b > 0 \<and> feeAddressOf c pfa \<noteq> []")
    case True
    with s8 have "addOutput R ?net p6 (feeAddressOf c pfa) (Some (platformFee c listing b)) = Inr p7"
      by simp
    then obtain sf nf where
      "toOutputScript R (feeAddressOf c pfa) ?net = Some sf"
      "Some (platformFee c listing b) = Some nf"
      "tx_outs p7 = tx_outs p6 @ [\<lparr> script = sf, out_value = nf \<rparr>]"
      by (rule addOutput_Inr)
    with True that [of "[\<lparr> script = sf, out_value = nf \<rparr>]"] show ?thesis by auto
  next
    case False
    with s8 have "p7 = p6" by simp
    with False that [of "[]"] show ?thesis by auto
  qed
  from s9 obtain sc8 n8 where
    a8: "toOutputScript R (buyerAddress b) ?net = Some sc8" and
    n8: "Some (DUMMY_UTXO_VALUE c) = Some n8" and
    o8: "tx_outs p8 = tx_outs p7 @ [\<lparr> script = sc8, out_value = n8 \<rparr>]"
    by (rule addOutput_Inr)
  from s10 obtain sc9 n9 where
    a9: "toOutputScript R (buyerAddress b) ?net = Some sc9" and
    n9: "Some (DUMMY_UTXO_VALUE c) = Some n9" and
    o9: "tx_outs p = tx_outs p8 @ [\<lparr> script = sc9, out_value = n9 \<rparr>]"
    by (rule addOutput_Inr)
  have "tx_outs p =
          [\<lparr> script = s0, out_value = v0 \<rparr>,
           \<lparr> script = sc1, out_value = ORDINALS_POSTAGE_VALUE c \<rparr>,
           \<lparr> script = sc2, out_value = sv \<rparr>]
          @ feeOuts
          @ [\<lparr> script = s0, out_value = DUMMY_UTXO_VALUE c \<rparr>,
             \<lparr> script = s0, out_value = DUMMY_UTXO_VALUE c \<rparr>]"
    using o1 o2 o3 o4 o5 o6 o7 o8 o9 n1 n2 n8 n9 a0 a8 a9 by simp
  with a0 v0 a1 a2 sel f show ?thesis
    by (intro exI [of _ s0] exI [of _ v0] exI [of _ sc1] exI [of _ sc2] exI [of _ feeOuts]) simp
qed

lemma buyingPSBT_withChange_outs:
  assumes "buyingPSBT_withChange c R P net b (p, t) = Inr p'"
  shows "\<exists>change. tx_outs p' = tx_outs p @ change \<and> length change \<le> 1"
proof -
  from assms obtain fee where
    r: "(if t - totalOutputOf p - fee < 0 then Inl (InvalidArgumentError
                  (''Your wallet doesn'' @ [CHR 0x27]
                   @ ''t have enough funds to buy this inscription.''))
         else if t - totalOutputOf p - fee > DUMMY_UTXO_MIN_VALUE c
         then addOutput R net p (buyerAddress b) (Some (t - totalOutputOf p - fee))
         else Inr p) = Inr p'"
    by (auto simp: buyingPSBT_withChange_def bind_result_eq_Inr Let_def)
  show ?thesis
  proof (cases "t - totalOutputOf p - fee > DUMMY_UTXO_MIN_VALUE c")
    case True
    with r have "addOutput R net p (buyerAddress b) (Some (t - totalOutputOf p - fee)) = Inr p'"
      by (simp split: if_splits)
    then obtain s n where "tx_outs p' = tx_outs p @ [\<lparr> script = s, out_value = n \<rparr>]"
      by (rule addOutput_Inr)
    then show ?thesis by simp
  next
    case False
    with r have "p' = p" by (simp split: if_splits)
    then show ?thesis by simp
  qed
qed

lemma checkBuyer_Inr:
  assumes "checkBuyer listing = Inr (b, dummies, payments)"
  shows "buyer listing = Some b \<and> buyerAddress b \<noteq> [] \<and> buyerTokenReceiveAddress b \<noteq> []
         \<and> buyerDummyUTXOs b = Some dummies \<and> length dummies = 2
         \<and> buyerPaymentUTXOs b = Some payments"
  using assms
  by (auto simp: checkBuyer_def split: option.splits if_splits)

lemma generateUnsignedBuyingPSBTBase64_None:
  assumes "generateUnsignedBuyingPSBTBase64 c R P listing pfa = (None, listing')"
  obtains b dummies payments p t psbt where
    "checkBuyer listing = Inr (b, dummies, payments)"
    "buyingPSBT_beforeFee c R P listing pfa b dummies payments = Inr (p, t)"
    "buyingPSBT_withChange c R P (network listing) b (p, t) = Inr psbt"
    "buyer listing' =
       Some (b\<lparr> unsignedBuyingPSBTBase64 := Some psbt,
                unsignedBuyingPSBTInputSize := Some (length (data_inputs psbt)) \<rparr>)"
proof -
  from assms obtain psbt where
    1: "buyingPSBT c R P listing pfa = Inr psbt" and
    2: "listing' = listing\<lparr> buyer :=
             map_option
               (\<lambda>b. b\<lparr> unsignedBuyingPSBTBase64 := Some psbt,
                        unsignedBuyingPSBTInputSize := Some (length (data_inputs psbt)) \<rparr>)
               (buyer listing) \<rparr>"
    by (auto simp: generateUnsignedBuyingPSBTBase64_def split: sum.splits)
  from 1 obtain b dummies payments p t where
    3: "checkBuyer listing = Inr (b, dummies, payments)" and
    4: "buyingPSBT_beforeFee c R P listing pfa b dummies payments = Inr (p, t)" and
    5: "buyingPSBT_withChange c R P (network listing) b (p, t) = Inr psbt"
    by (auto simp: buyingPSBT_def bind_result_eq_Inr)
  from checkBuyer_Inr [OF 3] have "buyer listing = Some b" by simp
  with 2 have "buyer listing' =
       Some (b\<lparr> unsignedBuyingPSBTBase64 := Some psbt,
                unsignedBuyingPSBTInputSize := Some (length (data_inputs psbt)) \<rparr>)"
    by simp
  with 3 4 5 show ?thesis by (rule that)
qed

lemma length_2_cases:
  assumes "length xs = 2"
  obtains x y where "xs = [x, y]"
  using assms by (cases xs; cases "tl xs") auto


lemma mapUtxos_single:
  assumes "mapUtxos R rpc [u] = Inr m"
  shows "\<exists>t. m = [\<lparr> txid = txid u, vout = vout u, utxo_value = utxo_value u,
                     status = status u, tx = t \<rparr>]"
  using assms
  by (auto simp: orThrow_def split: option.splits)

lemma addDummyInputs_total:
  "addDummyInputs R net b ds (p, t) = Inr (p', t') \<Longrightarrow> t' = t + sum_list (map utxo_value ds)"
proof (induction ds arbitrary: p t)
  case Nil
  then show ?case by simp
next
  case (Cons d ds)
  from Cons.prems obtain p1 where
    "addDummyInputs R net b ds (p1, t + utxo_value d) = Inr (p', t')"
    by (auto simp: bind_result_eq_Inr)
  from Cons.IH [OF this] show ?case by simp
qed

lemma addPaymentInputs_total:
  "addPaymentInputs R rpc net b us (p, t) = Inr (p', t') \<Longrightarrow> t' = t + sum_list (map utxo_value us)"
proof (induction us arbitrary: p t)
  case Nil
  then show ?case by simp
next
  case (Cons u us)
  from Cons.prems obtain m :: "MappedUtxo list" and p1 where
    m: "mapUtxos R rpc [u] = Inr m" and
    r: "addPaymentInputs R rpc net b us (p1, t + utxo_value (m ! 0)) = Inr (p', t')"
    by (auto simp: bind_result_eq_Inr Let_def)
  from mapUtxos_single [OF m] have "utxo_value (m ! 0) = utxo_value u" by auto
  with Cons.IH [OF r] show ?case by simp
qed

lemma buyingPSBT_beforeFee_total:
  assumes "buyingPSBT_beforeFee c R P listing pfa b dummies payments = Inr (p, t)"
  shows "t = sum_list (map utxo_value dummies) + sum_list (map utxo_value payments)"
proof -
  from assms obtain p1 t1 p5 p6 where
    1: "addDummyInputs R (network listing) b dummies (new_Psbt, 0) = Inr (p1, t1)" and
    2: "addPaymentInputs R P (network listing) b payments (p5, t1) = Inr (p6, t)"
    by (auto simp: buyingPSBT_beforeFee_def Let_def bind_result_eq_Inr split: prod.splits)
  from addDummyInputs_total [OF 1] addPaymentInputs_total [OF 2] show ?thesis by simp
qed

lemma generateUnsignedBuyingPSBTBase64_error_unchanged:
  "fst (generateUnsignedBuyingPSBTBase64 c R P listing pfa) = Some e
   \<Longrightarrow> snd (generateUnsignedBuyingPSBTBase64 c R P listing pfa) = listing"
  by (auto simp: generateUnsignedBuyingPSBTBase64_def split: sum.splits)

lemma checkBuyer_cases:
  "(\<exists>msg. checkBuyer listing = Inl (InvalidArgumentError msg))
   \<or> (\<exists>b dummies payments. checkBuyer listing = Inr (b, dummies, payments))"
  by (auto simp: checkBuyer_def split: option.splits)

lemma platformFee_positive:
  assumes "0 \<le> DUMMY_UTXO_MIN_VALUE c"
  shows "platformFee c listing b > 0
         \<longleftrightarrow> (price (seller listing) * (makerFeeBp (seller listing) + takerFeeBp b)) div 10000
               > DUMMY_UTXO_MIN_VALUE c"
    and "platformFee c listing b > 0
         \<Longrightarrow> platformFee c listing b
             = (price (seller listing) * (makerFeeBp (seller listing) + takerFeeBp b)) div 10000"
  using assms by (auto simp: platformFee_def Let_def add.commute split: if_splits)

lemma getAddressType_bech32:
  assumes "fromBase58Check R address = None" and "bech32 net \<noteq> []"
    and "fromBech32 R address = Some decoded"
  shows "getAddressType R address net =
           (if version decoded = 0
            then (if byteLength (data decoded) = 20 then p2wpkh else p2wsh)
            else if version decoded = 1 then p2tr else unknown)"
  using assms
  by (simp add: getAddressType_def isP2PKHAddress_def isP2SHAddress_def)

lemma scanInputs_policy:
  assumes "\<forall>input \<in> set vins. getrawtransactionVerbose P (vin_txid input) \<noteq> None"
  shows "scanInputs P vins =
           Inr (list_ex (\<lambda>input. parentUnconfirmed P input
                                  \<or> indexerFlags P (outpoint (vin_txid input) (vin_vout input)))
                  vins)"
  using assms
proof (induction vins)
  case Nil
  then show ?case by simp
next
  case (Cons input rest)
  then obtain prevTx where p: "getrawtransactionVerbose P (vin_txid input) = Some prevTx"
    by auto
  from Cons have ih: "scanInputs P rest =
           Inr (list_ex (\<lambda>input. parentUnconfirmed P input
                                  \<or> indexerFlags P (outpoint (vin_txid input) (vin_vout input)))
                  rest)"
    by simp
  show ?case
    using p ih
    by (simp add: parentUnconfirmed_def indexerFlags_def split: option.splits)
qed

lemma doesUtxoContainInscription_policy:
  assumes "confirmed (status utxo)
           \<or> (\<exists>t. getrawtransactionVerbose P (txid utxo) = Some t
                  \<and> (\<forall>input \<in> set (vin t). getrawtransactionVerbose P (vin_txid input) \<noteq> None))"
  shows "doesUtxoContainInscription P utxo = Inr (spec_contains_inscription P utxo)"
proof (cases "confirmed (status utxo)")
  case True
  then show ?thesis
    by (simp add: doesUtxoContainInscription_def spec_contains_inscription_def indexerFlags_def
        split: option.splits)
next
  case False
  with assms obtain t where
    t: "getrawtransactionVerbose P (txid utxo) = Some t" and
    a: "\<forall>input \<in> set (vin t). getrawtransactionVerbose P (vin_txid input) \<noteq> None"
    by blast
  from False t scanInputs_policy [OF a] show ?thesis
    by (simp add: doesUtxoContainInscription_def spec_contains_inscription_def)
qed



lemma verifySignedListingPSBTBase64_checks:
  assumes analysed: "analyzepsbt P (req_signedListingPSBTBase64 req) = Some analyzeResult"
    and in0: "nth_opt (tx_ins (req_signedListingPSBTBase64 req)) 0 = Some in0"
    and found: "getTokenByOutput P
                  (generateTxidFromHash (hash in0) @ '':'' @ string_of_nat (index in0))
                = Some found"
    and fee: "\<And>item. found = Some item \<Longrightarrow>
                (case marketplaceFeeProvider P of
                   None \<Rightarrow> Some 0
                 | Some getMakerFeeBp \<Rightarrow> getMakerFeeBp (owner item)) = Some makerFee"
    and out0: "nth_opt (tx_outs (req_signedListingPSBTBase64 req)) 0 = Some out0"
    and hex: "getrawtransaction P (generateTxidFromHash (hash in0)) = Some txHex"
    and prevTx: "Transaction_fromHex R txHex = Some prevTx"
    and prevOut: "nth_opt (outs prevTx) (index in0) = Some prevOut"
    and addr: "fromOutputScript R (script prevOut) net = Some sellerAddress"
  shows "verifySignedListingPSBTBase64 R req net P = Inr ()
         \<longleftrightarrow> length (data_inputs (req_signedListingPSBTBase64 req)) = 1
             \<and> checkTaprootSignatures (data_inputs (req_signedListingPSBTBase64 req)) = Inr ()
             \<and> \<not> notFinal analyzeResult
             \<and> (\<exists>item. found = Some item
                  \<and> item_id item = req_tokenId req
                  \<and> out_value out0
                      = getSellerOrdOutputValue (req_price req) makerFee (outputValue item)
                  \<and> owner item = sellerAddress)
             \<and> fromOutputScript R (script out0) net = Some (req_sellerReceiveAddress req)"
    and "verifySignedListingPSBTBase64 R req net P = Inr ()
         \<or> (\<exists>msg. verifySignedListingPSBTBase64 R req net P = Inl (InvalidArgumentError msg))"
proof -
  have tap: "checkTaprootSignatures xs = Inr ()
             \<or> (\<exists>msg. checkTaprootSignatures xs = Inl (InvalidArgumentError msg))" for xs
    by (induction xs) (auto split: option.splits)
  have mf: "(case marketplaceFeeProvider P of
               None \<Rightarrow> Inr 0
             | Some getMakerFeeBp \<Rightarrow> orThrow (getMakerFeeBp (owner item)) ProviderError)
            = Inr makerFee" if "found = Some item" for item
    using fee [OF that] by (auto simp: orThrow_def split: option.splits)
  show "verifySignedListingPSBTBase64 R req net P = Inr ()
         \<longleftrightarrow> length (data_inputs (req_signedListingPSBTBase64 req)) = 1
             \<and> checkTaprootSignatures (data_inputs (req_signedListingPSBTBase64 req)) = Inr ()
             \<and> \<not> notFinal analyzeResult
             \<and> (\<exists>item. found = Some item
                  \<and> item_id item = req_tokenId req
                  \<and> out_value out0
                      = getSellerOrdOutputValue (req_price req) makerFee (outputValue item)
                  \<and> owner item = sellerAddress)
             \<and> fromOutputScript R (script out0) net = Some (req_sellerReceiveAddress req)"
    using tap [of "data_inputs (req_signedListingPSBTBase64 req)"]
      analysed in0 found out0 hex prevTx prevOut addr mf
    by (cases found)
       (auto simp: verifySignedListingPSBTBase64_def Let_def orThrow_def)
  show "verifySignedListingPSBTBase64 R req net P = Inr ()
         \<or> (\<exists>msg. verifySignedListingPSBTBase64 R req net P = Inl (InvalidArgumentError msg))"
    using tap [of "data_inputs (req_signedListingPSBTBase64 req)"]
      analysed in0 found out0 hex prevTx prevOut addr mf
    by (cases found)
       (auto simp: verifySignedListingPSBTBase64_def Let_def orThrow_def)
qed

lemma spliceSellerInput_frame:
  assumes bi: "2 < length (tx_ins buyerPsbt)" and bd: "2 < length (data_inputs buyerPsbt)"
    and si: "tx_ins sellerPsbt \<noteq> []" and sd: "data_inputs sellerPsbt \<noteq> []"
  shows "\<exists>merged.
           spliceSellerInput sellerPsbt buyerPsbt = Inr merged
         \<and> tx_ins merged ! 2 = tx_ins sellerPsbt ! 0
         \<and> data_inputs merged ! 2 = data_inputs sellerPsbt ! 0
         \<and> length (tx_ins merged) = length (tx_ins buyerPsbt)
         \<and> length (data_inputs merged) = length (data_inputs buyerPsbt)
         \<and> (\<forall>i < length (tx_ins buyerPsbt). i \<noteq> 2 \<longrightarrow> tx_ins merged ! i = tx_ins buyerPsbt ! i)
         \<and> (\<forall>i < length (data_inputs buyerPsbt).
               i \<noteq> 2 \<longrightarrow> data_inputs merged ! i = data_inputs buyerPsbt ! i)
         \<and> tx_outs merged = tx_outs buyerPsbt
         \<and> data_outputs merged = data_outputs buyerPsbt
         \<and> tx_version merged = tx_version buyerPsbt
         \<and> tx_locktime merged = tx_locktime buyerPsbt"
proof -
  let ?m = "buyerPsbt\<lparr> tx_ins := (tx_ins buyerPsbt)[2 := tx_ins sellerPsbt ! 0],
                        data_inputs := (data_inputs buyerPsbt)[2 := data_inputs sellerPsbt ! 0] \<rparr>"
  from si sd have "nth_opt (tx_ins sellerPsbt) 0 = Some (tx_ins sellerPsbt ! 0)"
    "nth_opt (data_inputs sellerPsbt) 0 = Some (data_inputs sellerPsbt ! 0)"
    by (simp_all add: nth_opt_def)
  with bi bd have "spliceSellerInput sellerPsbt buyerPsbt = Inr ?m"
    by (simp add: spliceSellerInput_def js_assign_def
        BUYING_PSBT_SELLER_SIGNATURE_INDEX_def)
  with bi bd show ?thesis by simp
qed

lemma mergeSignedBuyingPSBTBase64_result:
  "fst (mergeSignedBuyingPSBTBase64 C signedListing signedBuying net h)
     = (case fromBase64 C signedListing of
          None \<Rightarrow> Inl LibraryError
        | Some sellerPsbt \<Rightarrow>
            (case fromBase64 C signedBuying of
               None \<Rightarrow> Inl LibraryError
             | Some buyerPsbt \<Rightarrow>
                 (case spliceSellerInput sellerPsbt buyerPsbt of
                    Inl e \<Rightarrow> Inl e
                  | Inr merged \<Rightarrow> Inr (toBase64 C merged))))"
  by (simp add: mergeSignedBuyingPSBTBase64_def Psbt_fromBase64_def Let_def nth_append
      split: option.splits sum.splits)

lemma mergeSignedBuyingPSBTBase64_heap:
  "take (length h) (snd (mergeSignedBuyingPSBTBase64 C signedListing signedBuying net h)) = h"
  by (simp add: mergeSignedBuyingPSBTBase64_def Psbt_fromBase64_def Let_def nth_append
      split: option.splits sum.splits)

lemma scanInputs_exact:
  "scanInputs P vins =
     (if parentsAnswered P vins
      then Inr (list_ex (\<lambda>input. parentUnconfirmed P input
                                 \<or> indexerFlags P (outpoint (vin_txid input) (vin_vout input)))
                  vins)
      else Inl ProviderError)"
  by (induction vins)
     (auto simp: parentUnconfirmed_def indexerFlags_def split: option.splits)

lemma doesUtxoContainInscription_exact:
  "doesUtxoContainInscription P utxo =
     (if lookupsAnswered P utxo then Inr (spec_contains_inscription P utxo)
      else Inl ProviderError)"
  by (auto simp: doesUtxoContainInscription_def spec_contains_inscription_def
      lookupsAnswered_def indexerFlags_def scanInputs_exact split: option.splits)



section \<open>The two fixed outputs of the buyer (claim C1)\<close>

text \<open>
  C1. Whenever \<open>BuyerSigner.generateUnsignedBuyingPSBTBase64\<close> produces a buying PSBT
  (the buyer section then holds exactly two dummy UTXOs), output 0 of that PSBT pays the
  buyer payment address \<open>dummy1.value + dummy2.value + offset\<close>, where \<open>offset\<close> is the
  number read from the third colon-separated component of \<open>seller.ordItem.location\<close>,
  and output 1 pays the buyer token receive address exactly \<open>ORDINALS_POSTAGE_VALUE\<close>.
\<close>

theorem buying_psbt_dummy_and_postage_outputs:
  assumes "generateUnsignedBuyingPSBTBase64 c R P listing pfa = (None, listing')"
  shows "\<exists>b b' psbt dummy1 dummy2 offset s0 s1.
           buyer listing = Some b
         \<and> buyerDummyUTXOs b = Some [dummy1, dummy2]
         \<and> buyer listing' = Some b'
         \<and> unsignedBuyingPSBTBase64 b' = Some psbt
         \<and> Number R (nth_opt (split_on CHR '':'' (location (ordItem (seller listing)))) 2)
             = Some offset
         \<and> toOutputScript R (buyerAddress b) (network listing) = Some s0
         \<and> toOutputScript R (buyerTokenReceiveAddress b) (network listing) = Some s1
         \<and> nth_opt (tx_outs psbt) 0
             = Some \<lparr> script = s0,
                      out_value = utxo_value dummy1 + utxo_value dummy2 + offset \<rparr>
         \<and> nth_opt (tx_outs psbt) 1
             = Some \<lparr> script = s1, out_value = ORDINALS_POSTAGE_VALUE c \<rparr>"
proof -
  from assms obtain b dummies payments p t psbt where
    chk: "checkBuyer listing = Inr (b, dummies, payments)" and
    bf: "buyingPSBT_beforeFee c R P listing pfa b dummies payments = Inr (p, t)" and
    wc: "buyingPSBT_withChange c R P (network listing) b (p, t) = Inr psbt" and
    l': "buyer listing' =
       Some (b\<lparr> unsignedBuyingPSBTBase64 := Some psbt,
                unsignedBuyingPSBTInputSize := Some (length (data_inputs psbt)) \<rparr>)"
    by (rule generateUnsignedBuyingPSBTBase64_None)
  from checkBuyer_Inr [OF chk] have
    b: "buyer listing = Some b" and ds: "buyerDummyUTXOs b = Some dummies"
    and len: "length dummies = 2"
    by simp_all
  from len obtain dummy1 dummy2 where d12: "dummies = [dummy1, dummy2]"
    by (rule length_2_cases)
  from buyingPSBT_beforeFee_outs [OF bf] obtain s0 v0 s1 s2 feeOuts where
    a0: "toOutputScript R (buyerAddress b) (network listing) = Some s0" and
    v0: "dummyOutputValue R listing dummies = Some v0" and
    a1: "toOutputScript R (buyerTokenReceiveAddress b) (network listing) = Some s1" and
    outs: "tx_outs p =
             [\<lparr> script = s0, out_value = v0 \<rparr>,
              \<lparr> script = s1, out_value = ORDINALS_POSTAGE_VALUE c \<rparr>,
              \<lparr> script = s2,
                out_value = getSellerOrdOutputValue (price (seller listing))
                              (makerFeeBp (seller listing))
                              (outputValue (ordItem (seller listing))) \<rparr>]
             @ feeOuts
             @ [\<lparr> script = s0, out_value = DUMMY_UTXO_VALUE c \<rparr>,
                \<lparr> script = s0, out_value = DUMMY_UTXO_VALUE c \<rparr>]"
    by blast
  from buyingPSBT_withChange_outs [OF wc] obtain change where
    ch: "tx_outs psbt = tx_outs p @ change" by blast
  from v0 d12 obtain offset where
    off: "Number R (nth_opt (split_on CHR '':'' (location (ordItem (seller listing)))) 2)
             = Some offset" and
    v0': "v0 = utxo_value dummy1 + utxo_value dummy2 + offset"
    by (auto simp: dummyOutputValue_def split: option.splits)
  have n0: "nth_opt (tx_outs psbt) 0 = Some \<lparr> script = s0, out_value = v0 \<rparr>"
    and n1: "nth_opt (tx_outs psbt) 1
             = Some \<lparr> script = s1, out_value = ORDINALS_POSTAGE_VALUE c \<rparr>"
    using outs ch by (simp_all add: nth_opt_def)
  from b ds d12 l' off a0 a1 n0 n1 v0' show ?thesis
    by (intro exI [of _ b] exI [of _ "b\<lparr> unsignedBuyingPSBTBase64 := Some psbt,
                unsignedBuyingPSBTInputSize := Some (length (data_inputs psbt)) \<rparr>"]
        exI [of _ psbt] exI [of _ dummy1] exI [of _ dummy2] exI [of _ offset]
        exI [of _ s0] exI [of _ s1]) simp
qed

text \<open>
  The scenario S2 of the specification: dummies of 600 each and offset 3000 give an
  output 0 of 4200, and output 1 carries the postage of 10000.
\<close>

theorem buying_psbt_dummy_and_postage_outputs_witness:
  "\<exists>b' psbt.
       buyer (snd (generateUnsignedBuyingPSBTBase64 example_constants example_runtime
                     example_providers (example_listing 100000000 100 0 200000000) None))
         = Some b'
     \<and> unsignedBuyingPSBTBase64 b' = Some psbt
     \<and> nth_opt (tx_outs psbt) 0 = Some \<lparr> script = ''JBuyer'', out_value = 4200 \<rparr>
     \<and> nth_opt (tx_outs psbt) 1 = Some \<lparr> script = ''JOrdinals'', out_value = 10000 \<rparr>"
proof -
  let ?L = "example_listing 100000000 100 0 200000000"
  let ?r = "generateUnsignedBuyingPSBTBase64 example_constants example_runtime
              example_providers ?L None"
  have "fst ?r = None" by code_simp
  then have h: "?r = (None, snd ?r)" by (simp add: prod_eq_iff)
  from buying_psbt_dummy_and_postage_outputs [OF h]
  obtain b b' psbt dummy1 dummy2 offset s0 s1 where
    b: "buyer ?L = Some b" and
    ds: "buyerDummyUTXOs b = Some [dummy1, dummy2]" and
    b': "buyer (snd ?r) = Some b'" and
    ps: "unsignedBuyingPSBTBase64 b' = Some psbt" and
    off: "Number example_runtime
            (nth_opt (split_on CHR '':'' (location (ordItem (seller ?L)))) 2) = Some offset" and
    a0: "toOutputScript example_runtime (buyerAddress b) (network ?L) = Some s0" and
    a1: "toOutputScript example_runtime (buyerTokenReceiveAddress b) (network ?L) = Some s1" and
    n0: "nth_opt (tx_outs psbt) 0
           = Some \<lparr> script = s0, out_value = utxo_value dummy1 + utxo_value dummy2 + offset \<rparr>" and
    n1: "nth_opt (tx_outs psbt) 1
           = Some \<lparr> script = s1, out_value = ORDINALS_POSTAGE_VALUE example_constants \<rparr>"
    by blast
  from b ds have d: "utxo_value dummy1 = 600" "utxo_value dummy2 = 600"
    by (auto simp: example_listing_def example_dummy_def)
  have "Number example_runtime
          (nth_opt (split_on CHR '':'' (location (ordItem (seller ?L)))) 2) = Some 3000"
    by code_simp
  with off have o: "offset = 3000" by simp
  from b a0 a1 have s: "s0 = ''JBuyer''" "s1 = ''JOrdinals''"
    by (auto simp: example_listing_def example_runtime_def)
  have c: "ORDINALS_POSTAGE_VALUE example_constants = 10000"
    by (simp add: example_constants_def default_constants_def
        DEFAULT_ORDINALS_POSTAGE_VALUE_def)
  from b' ps n0 n1 show ?thesis
    unfolding d o s c by (intro exI [of _ b'] exI [of _ psbt]) simp
qed

section \<open>The seller payout (claim C2)\<close>



section \<open>The fee estimate (claim C8)\<close>

text \<open>
  C8, as the code has it. Every call of the fee estimate in the signer leaves the
  parameter \<open>includeChangeOutput\<close> at its default \<open>1\<close>, so the estimate for \<open>n_in\<close>
  inputs, \<open>n_out\<close> outputs and fee rate \<open>r\<close> is \<open>(10 + 180 * n_in + 34 * (n_out + 1)) * r\<close>:
  the legacy sizes 180 / 34 / 10 with one further output, the change, counted in.
\<close>

theorem fee_estimate_counts_change_output:
  "calculateTxBytesFeeWithRate n_in n_out r 1 = (10 + 180 * n_in + 34 * (n_out + 1)) * r
   \<and> calculateTxBytesFee P n_in n_out tier 1
       = (case getFees P tier of
            None \<Rightarrow> Inl ProviderError
          | Some rate \<Rightarrow> Inr ((10 + 180 * n_in + 34 * (n_out + 1)) * rate))"
  by (simp add: calculateTxBytesFee_def calculateTxBytesFeeWithRate_def algebra_simps
      split: option.splits)

text \<open>
  The claim as written, \<open>(10 + 180 * n_in + 34 * n_out) * r\<close>, fails already for one
  input, one output and rate 1: the estimate is 258, not 224.
\<close>

theorem fee_estimate_counterexample:
  "calculateTxBytesFee example_providers 1 1 ''hourFee'' 1 = Inr 258
   \<and> (10 + 180 * 1 + 34 * 1) * 1 = (224 :: int)"
  by (simp add: calculateTxBytesFee_def calculateTxBytesFeeWithRate_def example_providers_def)

section \<open>Failure leaves the listing as it was (claim C10)\<close>

text \<open>
  C10. If the listing has no buyer section, no buyer address or no token-receive address,
  or its \<open>buyerDummyUTXOs\<close> are missing or not exactly two, or \<open>buyerPaymentUTXOs\<close> is
  missing, or the construction reaches the funds check with
  \<open>totalInput - totalOutput - fee < 0\<close> (\<open>totalInput\<close> being the sum of the dummy and
  payment values), then \<open>generateUnsignedBuyingPSBTBase64\<close> throws an
  \<open>InvalidArgumentError\<close> and the listing is unchanged. More generally the listing is
  unchanged after every failed call: the two buyer fields are assigned on the success
  path only.
\<close>

theorem buying_psbt_failure_leaves_listing_unchanged:
  "((buyer listing = None
     \<or> (\<exists>b. buyer listing = Some b
           \<and> (buyerAddress b = [] \<or> buyerTokenReceiveAddress b = []
               \<or> buyerDummyUTXOs b = None
               \<or> (\<exists>ds. buyerDummyUTXOs b = Some ds \<and> length ds \<noteq> 2)
               \<or> buyerPaymentUTXOs b = None
               \<or> (\<exists>ds ps psbt totalInput fee.
                     buyerDummyUTXOs b = Some ds \<and> buyerPaymentUTXOs b = Some ps
                   \<and> buyingPSBT_beforeFee c R P listing pfa b ds ps = Inr (psbt, totalInput)
                   \<and> calculateTxBytesFee P (int (length (tx_ins psbt)))
                        (int (length (tx_outs psbt))) (feeRateTier b) 1 = Inr fee
                   \<and> sum_list (map utxo_value ds) + sum_list (map utxo_value ps)
                       - sum_list (map out_value (tx_outs psbt)) - fee < 0))))
    \<longrightarrow> (\<exists>msg. generateUnsignedBuyingPSBTBase64 c R P listing pfa
                  = (Some (InvalidArgumentError msg), listing)))
   \<and> (\<forall>e. fst (generateUnsignedBuyingPSBTBase64 c R P listing pfa) = Some e
          \<longrightarrow> snd (generateUnsignedBuyingPSBTBase64 c R P listing pfa) = listing)"
proof (intro conjI impI allI)
  fix e
  assume "fst (generateUnsignedBuyingPSBTBase64 c R P listing pfa) = Some e"
  then show "snd (generateUnsignedBuyingPSBTBase64 c R P listing pfa) = listing"
    by (rule generateUnsignedBuyingPSBTBase64_error_unchanged)
next
  assume cond: "buyer listing = None
     \<or> (\<exists>b. buyer listing = Some b
           \<and> (buyerAddress b = [] \<or> buyerTokenReceiveAddress b = []
               \<or> buyerDummyUTXOs b = None
               \<or> (\<exists>ds. buyerDummyUTXOs b = Some ds \<and> length ds \<noteq> 2)
               \<or> buyerPaymentUTXOs b = None
               \<or> (\<exists>ds ps psbt totalInput fee.
                     buyerDummyUTXOs b = Some ds \<and> buyerPaymentUTXOs b = Some ps
                   \<and> buyingPSBT_beforeFee c R P listing pfa b ds ps = Inr (psbt, totalInput)
                   \<and> calculateTxBytesFee P (int (length (tx_ins psbt)))
                        (int (length (tx_outs psbt))) (feeRateTier b) 1 = Inr fee
                   \<and> sum_list (map utxo_value ds) + sum_list (map utxo_value ps)
                       - sum_list (map out_value (tx_outs psbt)) - fee < 0)))"
  have "\<exists>msg. buyingPSBT c R P listing pfa = Inl (InvalidArgumentError msg)"
  proof -
    from checkBuyer_cases [of listing] consider
      (bad) msg where "checkBuyer listing = Inl (InvalidArgumentError msg)"
      | (good) b dummies payments where "checkBuyer listing = Inr (b, dummies, payments)"
      by blast
    then show ?thesis
    proof cases
    case bad
    then show ?thesis by (simp add: buyingPSBT_def)
  next
    case good
    note ok = checkBuyer_Inr [OF good]
    with cond obtain psbt totalInput fee where
      bf: "buyingPSBT_beforeFee c R P listing pfa b dummies payments = Inr (psbt, totalInput)" and
      fee: "calculateTxBytesFee P (int (length (tx_ins psbt)))
                        (int (length (tx_outs psbt))) (feeRateTier b) 1 = Inr fee" and
      neg: "sum_list (map utxo_value dummies) + sum_list (map utxo_value payments)
                       - sum_list (map out_value (tx_outs psbt)) - fee < 0"
      by auto
    from buyingPSBT_beforeFee_total [OF bf] neg
    have "totalInput - totalOutputOf psbt - fee < 0"
      by (simp add: totalOutputOf_def)
    with fee have "\<exists>msg. buyingPSBT_withChange c R P (network listing) b (psbt, totalInput)
                     = Inl (InvalidArgumentError msg)"
      by (simp add: buyingPSBT_withChange_def Let_def)
    with good bf show ?thesis by (simp add: buyingPSBT_def)
  qed
  qed
  then show "\<exists>msg. generateUnsignedBuyingPSBTBase64 c R P listing pfa
                  = (Some (InvalidArgumentError msg), listing)"
    by (auto simp: generateUnsignedBuyingPSBTBase64_def)
qed

text \<open>
  The scenario S4: a buyer with 50000 satoshis besides the dummies cannot pay a price of
  100000000; the construction reaches the funds check and fails there.
\<close>

theorem buying_psbt_failure_leaves_listing_unchanged_witness:
  "\<exists>msg. generateUnsignedBuyingPSBTBase64 example_constants example_runtime example_providers
            (example_listing 100000000 100 0 50000) None
          = (Some (InvalidArgumentError msg), example_listing 100000000 100 0 50000)"
proof -
  let ?L = "example_listing 100000000 100 0 50000"
  let ?B = "the (buyer ?L)"
  let ?ds = "[example_dummy ''d1'', example_dummy ''d2'']"
  let ?ps = "[example_utxo ''f1'' 50000 True]"
  let ?bf = "buyingPSBT_beforeFee example_constants example_runtime example_providers ?L None
               ?B ?ds ?ps"
  have b: "buyer ?L = Some ?B" by (simp add: example_listing_def)
  have ds: "buyerDummyUTXOs ?B = Some ?ds" by (simp add: example_listing_def)
  have ps: "buyerPaymentUTXOs ?B = Some ?ps" by (simp add: example_listing_def)
  have "\<not> isl ?bf" by code_simp
  then have bf: "?bf = Inr (fst (projr ?bf), snd (projr ?bf))" by simp
  have fee: "calculateTxBytesFee example_providers (int (length (tx_ins (fst (projr ?bf)))))
               (int (length (tx_outs (fst (projr ?bf))))) (feeRateTier ?B) 1 = Inr 968"
    by code_simp
  have neg: "sum_list (map utxo_value ?ds) + sum_list (map utxo_value ?ps)
               - sum_list (map out_value (tx_outs (fst (projr ?bf)))) - 968 < 0"
    by code_simp
  from b ds ps bf fee neg
  have "\<exists>b. buyer ?L = Some b
           \<and> (buyerAddress b = [] \<or> buyerTokenReceiveAddress b = []
               \<or> buyerDummyUTXOs b = None
               \<or> (\<exists>ds. buyerDummyUTXOs b = Some ds \<and> length ds \<noteq> 2)
               \<or> buyerPaymentUTXOs b = None
               \<or> (\<exists>ds ps psbt totalInput fee.
                     buyerDummyUTXOs b = Some ds \<and> buyerPaymentUTXOs b = Some ps
                   \<and> buyingPSBT_beforeFee example_constants example_runtime
                        example_providers ?L None b ds ps = Inr (psbt, totalInput)
                   \<and> calculateTxBytesFee example_providers (int (length (tx_ins psbt)))
                        (int (length (tx_outs psbt))) (feeRateTier b) 1 = Inr fee
                   \<and> sum_list (map utxo_value ds) + sum_list (map utxo_value ps)
                       - sum_list (map out_value (tx_outs psbt)) - fee < 0))"
    by blast
  with buying_psbt_failure_leaves_listing_unchanged
         [of ?L example_constants example_runtime example_providers None]
  show ?thesis by blast
qed

section \<open>The platform fee output (claim C6)\<close>

text \<open>
  C6, as the code has it. In every generated buying PSBT (with a non-negative
  \<open>DUMMY_UTXO_MIN_VALUE\<close>) the outputs are the three fixed ones, then the platform fee
  output, then the two new dummies and at most one change output. The platform fee
  output pays \<open>floor(price * (makerFeeBp + takerFeeBp) / 10000)\<close> to the fee address
  (\<open>platformFeeAddress || PLATFORM_FEE_ADDRESS\<close>), so it sits at index 3, and it is
  omitted exactly when that value is \<open>\<le> DUMMY_UTXO_MIN_VALUE\<close> (580 by default) or the
  fee address is empty. The threshold is this constant, not the dust limit of the chain.
\<close>

theorem platform_fee_output_at_index_3:
  assumes gen: "generateUnsignedBuyingPSBTBase64 c R P listing pfa = (None, listing')"
    and min: "0 \<le> DUMMY_UTXO_MIN_VALUE c"
  shows "\<exists>b outs o0 o1 o2 sb feeOuts change.
           buyer listing = Some b
         \<and> generatedOutputs listing' = Some outs
         \<and> toOutputScript R (buyerAddress b) (network listing) = Some sb
         \<and> outs = [o0, o1, o2] @ feeOuts
                  @ [\<lparr> script = sb, out_value = DUMMY_UTXO_VALUE c \<rparr>,
                     \<lparr> script = sb, out_value = DUMMY_UTXO_VALUE c \<rparr>]
                  @ change
         \<and> length change \<le> 1
         \<and> (if (price (seller listing) * (makerFeeBp (seller listing) + takerFeeBp b)) div 10000
                  \<le> DUMMY_UTXO_MIN_VALUE c
                \<or> feeAddressOf c pfa = []
             then feeOuts = []
             else \<exists>sf. toOutputScript R (feeAddressOf c pfa) (network listing) = Some sf
                   \<and> feeOuts =
                       [\<lparr> script = sf,
                          out_value = (price (seller listing)
                                       * (makerFeeBp (seller listing) + takerFeeBp b))
                                      div 10000 \<rparr>])"
proof -
  let ?v = "(price (seller listing) * (makerFeeBp (seller listing) + takerFeeBp b)) div 10000"
  from gen obtain b dummies payments p t psbt where
    chk: "checkBuyer listing = Inr (b, dummies, payments)" and
    bf: "buyingPSBT_beforeFee c R P listing pfa b dummies payments = Inr (p, t)" and
    wc: "buyingPSBT_withChange c R P (network listing) b (p, t) = Inr psbt" and
    l': "buyer listing' =
       Some (b\<lparr> unsignedBuyingPSBTBase64 := Some psbt,
                unsignedBuyingPSBTInputSize := Some (length (data_inputs psbt)) \<rparr>)"
    by (rule generateUnsignedBuyingPSBTBase64_None)
  from checkBuyer_Inr [OF chk] have b: "buyer listing = Some b" by simp
  from buyingPSBT_beforeFee_outs [OF bf] obtain s0 v0 s1 s2 feeOuts where
    a0: "toOutputScript R (buyerAddress b) (network listing) = Some s0" and
    f: "if platformFee c listing b > 0 \<and> feeAddressOf c pfa \<noteq> []
        then \<exists>sf. toOutputScript R (feeAddressOf c pfa) (network listing) = Some sf
              \<and> feeOuts = [\<lparr> script = sf, out_value = platformFee c listing b \<rparr>]
        else feeOuts = []" and
    outs: "tx_outs p =
             [\<lparr> script = s0, out_value = v0 \<rparr>,
              \<lparr> script = s1, out_value = ORDINALS_POSTAGE_VALUE c \<rparr>,
              \<lparr> script = s2,
                out_value = getSellerOrdOutputValue (price (seller listing))
                              (makerFeeBp (seller listing))
                              (outputValue (ordItem (seller listing))) \<rparr>]
             @ feeOuts
             @ [\<lparr> script = s0, out_value = DUMMY_UTXO_VALUE c \<rparr>,
                \<lparr> script = s0, out_value = DUMMY_UTXO_VALUE c \<rparr>]"
    by blast
  from buyingPSBT_withChange_outs [OF wc] obtain change where
    ch: "tx_outs psbt = tx_outs p @ change" and len: "length change \<le> 1" by blast
  from l' have go: "generatedOutputs listing' = Some (tx_outs psbt)"
    by (simp add: generatedOutputs_def)
  have fee: "if (price (seller listing) * (makerFeeBp (seller listing) + takerFeeBp b)) div 10000
                  \<le> DUMMY_UTXO_MIN_VALUE c
                \<or> feeAddressOf c pfa = []
             then feeOuts = []
             else \<exists>sf. toOutputScript R (feeAddressOf c pfa) (network listing) = Some sf
                   \<and> feeOuts =
                       [\<lparr> script = sf,
                          out_value = (price (seller listing)
                                       * (makerFeeBp (seller listing) + takerFeeBp b))
                                      div 10000 \<rparr>]"
    using f platformFee_positive [OF min, of listing b]
    by (auto split: if_splits)
  from b go a0 outs ch len fee show ?thesis
    by (intro exI [of _ b] exI [of _ "tx_outs psbt"] exI [of _ "\<lparr> script = s0, out_value = v0 \<rparr>"]
          exI [of _ "\<lparr> script = s1, out_value = ORDINALS_POSTAGE_VALUE c \<rparr>"]
          exI [of _ "\<lparr> script = s2,
                out_value = getSellerOrdOutputValue (price (seller listing))
                              (makerFeeBp (seller listing))
                              (outputValue (ordItem (seller listing))) \<rparr>"]
          exI [of _ s0] exI [of _ feeOuts] exI [of _ change]) simp
qed

text \<open>
  The claim as written compares with the dust limit. On Junkcoin the dust limit is 546;
  a price of 56000 at 100 basis points gives a fee of 560, above the dust limit, and a
  fee address is configured, yet the generated PSBT has no platform fee output: index 3
  holds the first new dummy.
\<close>

theorem platform_fee_dust_counterexample:
  "generatedOutputs (snd (generateUnsignedBuyingPSBTBase64 example_constants example_runtime
       example_providers (example_listing 56000 100 0 100000) None))
     = Some [\<lparr> script = ''JBuyer'', out_value = 4200 \<rparr>,
             \<lparr> script = ''JOrdinals'', out_value = 10000 \<rparr>,
             \<lparr> script = ''JPayout'', out_value = 65440 \<rparr>,
             \<lparr> script = ''JBuyer'', out_value = 600 \<rparr>,
             \<lparr> script = ''JBuyer'', out_value = 600 \<rparr>,
             \<lparr> script = ''JBuyer'', out_value = 19426 \<rparr>]
   \<and> (56000 * (100 + 0)) div 10000 = (560 :: int)
   \<and> dustLimit junkcoinMainnet = Some 546
   \<and> PLATFORM_FEE_ADDRESS example_constants = ''JPlatform''"
  by code_simp

text \<open>The scenario S2: a platform fee of 1000000 at index 3.\<close>

theorem platform_fee_output_at_index_3_witness:
  "\<exists>outs o0 o1 o2 change.
       generatedOutputs (snd (generateUnsignedBuyingPSBTBase64 example_constants
           example_runtime example_providers (example_listing 100000000 100 0 200000000) None))
         = Some outs
     \<and> outs = [o0, o1, o2] @ [\<lparr> script = ''JPlatform'', out_value = 1000000 \<rparr>]
              @ [\<lparr> script = ''JBuyer'', out_value = 600 \<rparr>,
                 \<lparr> script = ''JBuyer'', out_value = 600 \<rparr>]
              @ change
     \<and> length change \<le> 1"
proof -
  let ?L = "example_listing 100000000 100 0 200000000"
  let ?r = "generateUnsignedBuyingPSBTBase64 example_constants example_runtime
              example_providers ?L None"
  have "fst ?r = None" by code_simp
  then have h: "?r = (None, snd ?r)" by (simp add: prod_eq_iff)
  have m: "0 \<le> DUMMY_UTXO_MIN_VALUE example_constants"
    by (simp add: example_constants_def default_constants_def DEFAULT_DUMMY_UTXO_MIN_VALUE_def)
  from platform_fee_output_at_index_3 [OF h m]
  obtain b outs o0 o1 o2 sb feeOuts change where
    b: "buyer ?L = Some b" and
    go: "generatedOutputs (snd ?r) = Some outs" and
    sb: "toOutputScript example_runtime (buyerAddress b) (network ?L) = Some sb" and
    outs: "outs = [o0, o1, o2] @ feeOuts
                  @ [\<lparr> script = sb, out_value = DUMMY_UTXO_VALUE example_constants \<rparr>,
                     \<lparr> script = sb, out_value = DUMMY_UTXO_VALUE example_constants \<rparr>]
                  @ change" and
    len: "length change \<le> 1" and
    fee: "if (price (seller ?L) * (makerFeeBp (seller ?L) + takerFeeBp b)) div 10000
                  \<le> DUMMY_UTXO_MIN_VALUE example_constants
                \<or> feeAddressOf example_constants None = []
             then feeOuts = []
             else \<exists>sf. toOutputScript example_runtime (feeAddressOf example_constants None)
                          (network ?L) = Some sf
                   \<and> feeOuts =
                       [\<lparr> script = sf,
                          out_value = (price (seller ?L)
                                       * (makerFeeBp (seller ?L) + takerFeeBp b))
                                      div 10000 \<rparr>]"
    by blast
  from b have tb: "takerFeeBp b = 0" "buyerAddress b = ''JBuyer''"
    by (auto simp: example_listing_def)
  from sb tb have sb': "sb = ''JBuyer''"
    by (auto simp: example_runtime_def)
  have c: "DUMMY_UTXO_VALUE example_constants = 600"
          "DUMMY_UTXO_MIN_VALUE example_constants = 580"
          "feeAddressOf example_constants None = ''JPlatform''"
    by (simp_all add: example_constants_def default_constants_def feeAddressOf_def
        DEFAULT_DUMMY_UTXO_VALUE_def DEFAULT_DUMMY_UTXO_MIN_VALUE_def)
  have v: "(price (seller ?L) * (makerFeeBp (seller ?L) + 0)) div 10000 = 1000000"
    by (simp add: example_listing_def)
  from fee have "feeOuts = [\<lparr> script = ''JPlatform'', out_value = 1000000 \<rparr>]"
    unfolding tb c v by (auto simp: example_runtime_def)
  with go outs len sb' c show ?thesis by auto
qed

section \<open>Address classification (claim C9)\<close>

text \<open>
  C9. The claim asks that the bech32 decode of \<open>getAddressType\<close> be constrained to the
  HRP of the chain. The code only tests that the chain has an HRP and then calls
  \<open>fromBech32\<close>, which accepts any prefix: the Bitcoin address
  \<open>bc1qw508d6qejxtdg4y5r3zarvary0c5xw7kv8f3t4\<close> (no base58 text, witness version 0, a
  program of 20 bytes) is classified \<open>p2wpkh\<close> on Litecoin, whose HRP is \<open>ltc\<close>, while
  \<open>isSegWitAddress\<close>, which does compare the prefix, rejects it. On Dogecoin, whose HRP is
  empty, the same address is \<open>unknown\<close>, as the claim says.
\<close>

theorem getAddressType_ignores_hrp:
  "getAddressType example_runtime ''bc1qw508d6qejxtdg4y5r3zarvary0c5xw7kv8f3t4''
     (chain_network litecoinMainnet) = p2wpkh
   \<and> bech32 (chain_network litecoinMainnet) = ''ltc''
   \<and> isSegWitAddress example_runtime ''bc1qw508d6qejxtdg4y5r3zarvary0c5xw7kv8f3t4''
       (chain_network litecoinMainnet) = False
   \<and> getAddressType example_runtime ''bc1qw508d6qejxtdg4y5r3zarvary0c5xw7kv8f3t4''
       (chain_network dogecoinMainnet) = unknown"
  by code_simp

section \<open>Verification of a signed listing (claim C3)\<close>

text \<open>
  C3. The claim asks for an \<open>InvalidArgumentError\<close> whenever one of the six checks fails.
  A signed listing PSBT with one input and no output fails the price check (there is no
  output that pays the seller), but \<open>verifySignedListingPSBTBase64\<close> reads
  \<open>psbt.txOutputs[0].value\<close> without testing that the output exists and ends in a
  \<open>TypeError\<close>. The same request with the output in place is accepted, and with an
  output one satoshi short it is rejected as \<open>Invalid price\<close> (scenario S5). Under the
  structural provisos of the lemma \<open>verifySignedListingPSBTBase64_checks\<close> (output 0
  exists, the previous output exists and its script decodes, the providers answer) the
  call does reject with \<open>InvalidArgumentError\<close> exactly when a check fails.
\<close>

theorem verify_listing_without_outputs:
  "verifySignedListingPSBTBase64 example_runtime (example_request example_sellerPsbt_noOutputs)
     (chain_network junkcoinMainnet) example_providers = Inl TypeError
   \<and> length (data_inputs example_sellerPsbt_noOutputs) = 1
   \<and> tx_outs example_sellerPsbt_noOutputs = []
   \<and> verifySignedListingPSBTBase64 example_runtime (example_request example_sellerPsbt)
       (chain_network junkcoinMainnet) example_providers = Inr ()
   \<and> verifySignedListingPSBTBase64 example_runtime
       (example_request
          (example_sellerPsbt\<lparr> tx_outs := [\<lparr> script = ''JPayout'', out_value = 100009999 \<rparr>] \<rparr>))
       (chain_network junkcoinMainnet) example_providers
       = Inl (InvalidArgumentError ''Invalid price'')"
  by code_simp

section \<open>Merging (claim C5)\<close>

text \<open>
  C5. \<open>mergeSignedBuyingPSBTBase64\<close> is pure and deterministic: its result, a base64
  text or an error, is the same for the same pair of base64 texts whatever the network
  argument and whatever objects exist when it is called, so two invocations on the same
  pair give the same text; and no object that existed before the call is changed.
  When the texts parse to a buyer PSBT that has a slot 2 and a seller PSBT that has an
  input, the result is the text of the buyer PSBT in which slot 2 of the unsigned
  transaction's inputs and slot 2 of the PSBT input maps are input 0 of the seller PSBT;
  every other input, every output and every other field is that of the buyer PSBT.
\<close>

theorem merge_replaces_only_slot_2:
  "fst (mergeSignedBuyingPSBTBase64 C signedListing signedBuying net h)
     = fst (mergeSignedBuyingPSBTBase64 C signedListing signedBuying net' h')
   \<and> take (length h) (snd (mergeSignedBuyingPSBTBase64 C signedListing signedBuying net h)) = h
   \<and> (fromBase64 C signedListing = Some sellerPsbt
      \<and> fromBase64 C signedBuying = Some buyerPsbt
      \<and> 2 < length (tx_ins buyerPsbt) \<and> 2 < length (data_inputs buyerPsbt)
      \<and> tx_ins sellerPsbt \<noteq> [] \<and> data_inputs sellerPsbt \<noteq> []
      \<longrightarrow> (\<exists>merged.
             fst (mergeSignedBuyingPSBTBase64 C signedListing signedBuying net h)
               = Inr (toBase64 C merged)
           \<and> tx_ins merged ! 2 = tx_ins sellerPsbt ! 0
           \<and> data_inputs merged ! 2 = data_inputs sellerPsbt ! 0
           \<and> length (tx_ins merged) = length (tx_ins buyerPsbt)
           \<and> length (data_inputs merged) = length (data_inputs buyerPsbt)
           \<and> (\<forall>i < length (tx_ins buyerPsbt).
                 i \<noteq> 2 \<longrightarrow> tx_ins merged ! i = tx_ins buyerPsbt ! i)
           \<and> (\<forall>i < length (data_inputs buyerPsbt).
                 i \<noteq> 2 \<longrightarrow> data_inputs merged ! i = data_inputs buyerPsbt ! i)
           \<and> tx_outs merged = tx_outs buyerPsbt
           \<and> data_outputs merged = data_outputs buyerPsbt
           \<and> tx_version merged = tx_version buyerPsbt
           \<and> tx_locktime merged = tx_locktime buyerPsbt))"
proof (intro conjI impI)
  show "fst (mergeSignedBuyingPSBTBase64 C signedListing signedBuying net h)
     = fst (mergeSignedBuyingPSBTBase64 C signedListing signedBuying net' h')"
    by (simp only: mergeSignedBuyingPSBTBase64_result)
  show "take (length h) (snd (mergeSignedBuyingPSBTBase64 C signedListing signedBuying net h)) = h"
    by (rule mergeSignedBuyingPSBTBase64_heap)
next
  assume a: "fromBase64 C signedListing = Some sellerPsbt
      \<and> fromBase64 C signedBuying = Some buyerPsbt
      \<and> 2 < length (tx_ins buyerPsbt) \<and> 2 < length (data_inputs buyerPsbt)
      \<and> tx_ins sellerPsbt \<noteq> [] \<and> data_inputs sellerPsbt \<noteq> []"
  then have "2 < length (tx_ins buyerPsbt)" "2 < length (data_inputs buyerPsbt)"
    "tx_ins sellerPsbt \<noteq> []" "data_inputs sellerPsbt \<noteq> []"
    by simp_all
  from spliceSellerInput_frame [OF this] obtain merged where
    m: "spliceSellerInput sellerPsbt buyerPsbt = Inr merged" and
    f: "tx_ins merged ! 2 = tx_ins sellerPsbt ! 0
         \<and> data_inputs merged ! 2 = data_inputs sellerPsbt ! 0
         \<and> length (tx_ins merged) = length (tx_ins buyerPsbt)
         \<and> length (data_inputs merged) = length (data_inputs buyerPsbt)
         \<and> (\<forall>i < length (tx_ins buyerPsbt). i \<noteq> 2 \<longrightarrow> tx_ins merged ! i = tx_ins buyerPsbt ! i)
         \<and> (\<forall>i < length (data_inputs buyerPsbt).
               i \<noteq> 2 \<longrightarrow> data_inputs merged ! i = data_inputs buyerPsbt ! i)
         \<and> tx_outs merged = tx_outs buyerPsbt
         \<and> data_outputs merged = data_outputs buyerPsbt
         \<and> tx_version merged = tx_version buyerPsbt
         \<and> tx_locktime merged = tx_locktime buyerPsbt"
    by blast
  from a m have "fst (mergeSignedBuyingPSBTBase64 C signedListing signedBuying net h)
               = Inr (toBase64 C merged)"
    by (simp add: mergeSignedBuyingPSBTBase64_result)
  with f show "\<exists>merged.
             fst (mergeSignedBuyingPSBTBase64 C signedListing signedBuying net h)
               = Inr (toBase64 C merged)
           \<and> tx_ins merged ! 2 = tx_ins sellerPsbt ! 0
           \<and> data_inputs merged ! 2 = data_inputs sellerPsbt ! 0
           \<and> length (tx_ins merged) = length (tx_ins buyerPsbt)
           \<and> length (data_inputs merged) = length (data_inputs buyerPsbt)
           \<and> (\<forall>i < length (tx_ins buyerPsbt).
                 i \<noteq> 2 \<longrightarrow> tx_ins merged ! i = tx_ins buyerPsbt ! i)
           \<and> (\<forall>i < length (data_inputs buyerPsbt).
                 i \<noteq> 2 \<longrightarrow> data_inputs merged ! i = data_inputs buyerPsbt ! i)
           \<and> tx_outs merged = tx_outs buyerPsbt
           \<and> data_outputs merged = data_outputs buyerPsbt
           \<and> tx_version merged = tx_version buyerPsbt
           \<and> tx_locktime merged = tx_locktime buyerPsbt"
    by blast
qed

text \<open>
  A buyer PSBT of four inputs merged with a seller PSBT of one; a second call, with
  another network and on the heap the first call left, returns the same text.
\<close>

theorem merge_replaces_only_slot_2_witness:
  "\<exists>merged.
       fst (mergeSignedBuyingPSBTBase64 example_codec ''c2VsbGVy'' ''YnV5ZXI='' None [])
         = Inr (toBase64 example_codec merged)
     \<and> tx_ins merged
         = [example_txin ''d1'', example_txin ''d2'', example_txin ''aa'', example_txin ''f1'']
     \<and> data_inputs merged ! 2 = data_inputs example_sellerPsbt ! 0
     \<and> data_inputs merged ! 0 = data_inputs example_buyerPsbt ! 0
     \<and> data_inputs merged ! 1 = data_inputs example_buyerPsbt ! 1
     \<and> data_inputs merged ! 3 = data_inputs example_buyerPsbt ! 3
     \<and> tx_outs merged = tx_outs example_buyerPsbt
     \<and> fst (mergeSignedBuyingPSBTBase64 example_codec ''c2VsbGVy'' ''YnV5ZXI=''
              (Some (chain_network litecoinMainnet))
              (snd (mergeSignedBuyingPSBTBase64 example_codec ''c2VsbGVy'' ''YnV5ZXI='' None [])))
         = fst (mergeSignedBuyingPSBTBase64 example_codec ''c2VsbGVy'' ''YnV5ZXI='' None [])"
proof -
  let ?first = "mergeSignedBuyingPSBTBase64 example_codec ''c2VsbGVy'' ''YnV5ZXI='' None []"
  note inst = merge_replaces_only_slot_2 [of example_codec "''c2VsbGVy''" "''YnV5ZXI=''" None "[]"
      "Some (chain_network litecoinMainnet)" "snd ?first" example_sellerPsbt example_buyerPsbt]
  have pre: "fromBase64 example_codec ''c2VsbGVy'' = Some example_sellerPsbt
      \<and> fromBase64 example_codec ''YnV5ZXI='' = Some example_buyerPsbt
      \<and> 2 < length (tx_ins example_buyerPsbt) \<and> 2 < length (data_inputs example_buyerPsbt)
      \<and> tx_ins example_sellerPsbt \<noteq> [] \<and> data_inputs example_sellerPsbt \<noteq> []"
    by (simp add: example_codec_def example_buyerPsbt_def example_sellerPsbt_def)
  from inst have again: "fst (mergeSignedBuyingPSBTBase64 example_codec ''c2VsbGVy'' ''YnV5ZXI=''
              (Some (chain_network litecoinMainnet)) (snd ?first)) = fst ?first"
    by simp
  from inst pre obtain merged where
    m: "fst ?first = Inr (toBase64 example_codec merged)" and
    i2: "tx_ins merged ! 2 = tx_ins example_sellerPsbt ! 0" and
    d2: "data_inputs merged ! 2 = data_inputs example_sellerPsbt ! 0" and
    li: "length (tx_ins merged) = length (tx_ins example_buyerPsbt)" and
    ii: "\<forall>i < length (tx_ins example_buyerPsbt).
           i \<noteq> 2 \<longrightarrow> tx_ins merged ! i = tx_ins example_buyerPsbt ! i" and
    dd: "\<forall>i < length (data_inputs example_buyerPsbt).
           i \<noteq> 2 \<longrightarrow> data_inputs merged ! i = data_inputs example_buyerPsbt ! i" and
    oo: "tx_outs merged = tx_outs example_buyerPsbt"
    by blast
  from ii have i013: "tx_ins merged ! 0 = example_txin ''d1''"
    "tx_ins merged ! 1 = example_txin ''d2''" "tx_ins merged ! 3 = example_txin ''f1''"
    by (simp_all add: example_buyerPsbt_def)
  from i2 have i2': "tx_ins merged ! 2 = example_txin ''aa''"
    by (simp add: example_sellerPsbt_def)
  from li have "length (tx_ins merged) = 4" by (simp add: example_buyerPsbt_def)
  with i013 i2' have ins: "tx_ins merged
         = [example_txin ''d1'', example_txin ''d2'', example_txin ''aa'', example_txin ''f1'']"
    by (intro nth_equalityI) (auto simp: nth_Cons' less_Suc_eq numeral_eq_Suc)
  from dd have "data_inputs merged ! 0 = data_inputs example_buyerPsbt ! 0"
    "data_inputs merged ! 1 = data_inputs example_buyerPsbt ! 1"
    "data_inputs merged ! 3 = data_inputs example_buyerPsbt ! 3"
    by (simp_all add: example_buyerPsbt_def)
  with m ins d2 oo again show ?thesis by blast
qed

section \<open>The inscription check (claim C4)\<close>

text \<open>
  C4, as the code has it. \<open>doesUtxoContainInscription\<close> returns a value exactly when
  the node answers the lookups the check makes (none for a confirmed UTXO; for an
  unconfirmed one its own transaction and the previous transaction of each input in
  turn, up to the first input with an unconfirmed parent or a flagged outpoint);
  otherwise the error of the node propagates. The value it returns is true for a
  confirmed UTXO exactly when the indexer answers non-null for its outpoint or fails, for
  an unconfirmed UTXO exactly when some input has a previous transaction with
  \<open>confirmations = 0\<close> or an outpoint for which the indexer answers non-null or fails,
  and false otherwise; and after a true result each of its three callers goes on with
  the remaining candidates.
\<close>

theorem inscription_check_follows_policy:
  "doesUtxoContainInscription P utxo =
     (if lookupsAnswered P utxo then Inr (spec_contains_inscription P utxo)
      else Inl ProviderError)
   \<and> (doesUtxoContainInscription P utxo = Inr True \<longrightarrow>
        selectDummyUTXOs_loop c R P (utxo # rest) result
          = selectDummyUTXOs_loop c R P rest result
      \<and> selectPaymentUTXOs_loop P amount vinsLength voutsLength tier (utxo # rest)
            (selected, selectedAmount)
          = selectPaymentUTXOs_loop P amount vinsLength voutsLength tier rest
              (selected, selectedAmount)
      \<and> (\<forall>m. utxo = \<lparr> txid = txid m, vout = vout m, utxo_value = utxo_value m,
                       status = status m \<rparr> \<longrightarrow>
             createDummy_loop c R P net address pubkey fee (m # mrest) (psbt, collected, n)
               = createDummy_loop c R P net address pubkey fee mrest (psbt, collected, n)))"
proof (intro conjI impI allI)
  show "doesUtxoContainInscription P utxo =
     (if lookupsAnswered P utxo then Inr (spec_contains_inscription P utxo)
      else Inl ProviderError)"
    by (rule doesUtxoContainInscription_exact)
next
  assume t: "doesUtxoContainInscription P utxo = Inr True"
  then show "selectDummyUTXOs_loop c R P (utxo # rest) result
          = selectDummyUTXOs_loop c R P rest result"
    by simp
  from t show "selectPaymentUTXOs_loop P amount vinsLength voutsLength tier (utxo # rest)
            (selected, selectedAmount)
          = selectPaymentUTXOs_loop P amount vinsLength voutsLength tier rest
              (selected, selectedAmount)"
    by simp
  fix m :: MappedUtxo
  assume "utxo = \<lparr> txid = txid m, vout = vout m, utxo_value = utxo_value m,
                       status = status m \<rparr>"
  with t show "createDummy_loop c R P net address pubkey fee (m # mrest) (psbt, collected, n)
               = createDummy_loop c R P net address pubkey fee mrest (psbt, collected, n)"
    by simp
qed

text \<open>
  The claim as written leaves no room for the error: a failed lookup of the node is not
  caught. The unconfirmed UTXO \<open>c3:0\<close> has an input whose previous transaction \<open>ee\<close> the
  node does not know and another whose previous transaction is unconfirmed; the policy
  says inscription, the call throws. For \<open>ee:0\<close> itself the policy says no inscription,
  and the call throws as well instead of returning false.
\<close>

theorem inscription_check_counterexample:
  "doesUtxoContainInscription example_providers (example_utxo ''c3'' 700 False)
     = Inl ProviderError
   \<and> spec_contains_inscription example_providers (example_utxo ''c3'' 700 False) = True
   \<and> doesUtxoContainInscription example_providers (example_utxo ''ee'' 700 False)
     = Inl ProviderError
   \<and> spec_contains_inscription example_providers (example_utxo ''ee'' 700 False) = False"
  by code_simp

text \<open>
  The UTXO \<open>c6:0\<close> has a first input with an unconfirmed parent and a second input the
  node does not know: the scan stops at the first and answers true, and the payment scan
  skips the UTXO. \<open>c4:0\<close>, whose only parent is confirmed and clean, is no inscription;
  on \<open>c3:0\<close> the unknown parent comes first and the call fails.
\<close>

theorem inscription_check_follows_policy_witness:
  "doesUtxoContainInscription example_providers (example_utxo ''c6'' 700 False) = Inr True
   \<and> doesUtxoContainInscription example_providers (example_utxo ''c4'' 700 False) = Inr False
   \<and> doesUtxoContainInscription example_providers (example_utxo ''c3'' 700 False)
       = Inl ProviderError
   \<and> selectPaymentUTXOs_loop example_providers 5500 3 5 ''hourFee''
        [example_utxo ''c6'' 700 False, example_utxo ''c4'' 700 False] ([], 0)
      = selectPaymentUTXOs_loop example_providers 5500 3 5 ''hourFee''
          [example_utxo ''c4'' 700 False] ([], 0)"
proof -
  let ?P = example_providers
  have a6: "lookupsAnswered ?P (example_utxo ''c6'' 700 False) = True"
    and s6: "spec_contains_inscription ?P (example_utxo ''c6'' 700 False) = True"
    and a4: "lookupsAnswered ?P (example_utxo ''c4'' 700 False) = True"
    and s4: "spec_contains_inscription ?P (example_utxo ''c4'' 700 False) = False"
    and a3: "lookupsAnswered ?P (example_utxo ''c3'' 700 False) = False"
    by code_simp+
  note t6 = inscription_check_follows_policy [of ?P "example_utxo ''c6'' 700 False"]
  note t4 = inscription_check_follows_policy [of ?P "example_utxo ''c4'' 700 False"]
  note t3 = inscription_check_follows_policy [of ?P "example_utxo ''c3'' 700 False"]
  from t6 have r6: "doesUtxoContainInscription ?P (example_utxo ''c6'' 700 False) = Inr True"
    unfolding a6 s6 by simp
  from t4 have r4: "doesUtxoContainInscription ?P (example_utxo ''c4'' 700 False) = Inr False"
    unfolding a4 s4 by simp
  from t3 have r3: "doesUtxoContainInscription ?P (example_utxo ''c3'' 700 False)
                      = Inl ProviderError"
    unfolding a3 by simp
  from t6 r6 have "selectPaymentUTXOs_loop ?P 5500 3 5 ''hourFee''
        [example_utxo ''c6'' 700 False, example_utxo ''c4'' 700 False] ([], 0)
      = selectPaymentUTXOs_loop ?P 5500 3 5 ''hourFee''
          [example_utxo ''c4'' 700 False] ([], 0)"
    by blast
  with r6 r4 r3 show ?thesis by blast
qed

section \<open>Payment selection (claim C7)\<close>




end
